theory Spec2Isabelle
  imports Main "HOL-Library.Word"
begin

unbundle bit_operations_syntax

section \<open>Bytes and strings\<close>

text \<open>
  The C++ code moves data as \<^verbatim>\<open>char\<close> buffers and \<^verbatim>\<open>std::string\<close>s.
  Where the code does bit arithmetic on them (WebSocket frames), a buffer is a list of
  8-bit words; where it does text processing (HTTP handshake, RESP), it is a \<^typ>\<open>string\<close>,
  whose characters are exactly the 256 byte values.
\<close>

type_synonym byte = "8 word"
type_synonym bytes = "byte list"

definition bytes_of :: "string \<Rightarrow> bytes" where
  "bytes_of s = map of_char s"

definition string_of :: "bytes \<Rightarrow> string" where
  "string_of bs = map (\<lambda>b. char_of (unat b)) bs"

section \<open>WebSocket protocol: payload masking\<close>

text \<open>
  \<^verbatim>\<open>WebSocketProtocol::unmaskPayload(payload, length, maskingKey[4])\<close>: byte \<open>i\<close> of the
  result is \<^verbatim>\<open>payload[i] ^ maskingKey[i % 4]\<close>. The key is the array of four bytes in
  the order \<^verbatim>\<open>parseFrameHeader\<close> copied them from the wire (\<^verbatim>\<open>memcpy\<close>).
\<close>

definition unmaskPayload :: "bytes \<Rightarrow> bytes \<Rightarrow> bytes" where
  "unmaskPayload payload maskingKey =
     map (\<lambda>i. (payload ! i) XOR (maskingKey ! (i mod 4))) [0..<length payload]"

section \<open>Decimal rendering\<close>

text \<open>
  \<^verbatim>\<open>std::to_string\<close> on a non-negative integer: the decimal digits, most significant
  first, no sign and no leading zero (the single digit \<open>0\<close> for zero).
\<close>

definition digit_char :: "nat \<Rightarrow> char" where
  "digit_char d = ''0123456789'' ! d"

function to_string :: "nat \<Rightarrow> string" where
  "to_string n = (if n < 10 then [digit_char n] else to_string (n div 10) @ [digit_char (n mod 10)])"
  by pat_completeness auto
termination
  by (relation "measure id") auto

declare to_string.simps [simp del]

section \<open>WebSocket protocol: data model\<close>

text \<open>\<^verbatim>\<open>enum class State\<close> of \<^verbatim>\<open>WebSocketProtocol\<close>.\<close>

datatype State = CONNECTING | OPEN | CLOSING | CLOSED

text \<open>
  \<^verbatim>\<open>enum class FrameType\<close>. The header parser stores
  \<^verbatim>\<open>static_cast<FrameType>(byte1 & 0x0F)\<close>, so a value of the type is any 4-bit
  number; the enumerators are the six named values.
\<close>

type_synonym FrameType = byte

definition CONTINUATION :: FrameType where "CONTINUATION = 0x0"
definition TEXT :: FrameType where "TEXT = 0x1"
definition BINARY :: FrameType where "BINARY = 0x2"
definition CLOSE :: FrameType where "CLOSE = 0x8"
definition PING :: FrameType where "PING = 0x9"
definition PONG :: FrameType where "PONG = 0xA"

record FrameHeader =
  fin :: bool
  rsv1 :: bool
  rsv2 :: bool
  rsv3 :: bool
  opcode :: FrameType
  masked :: bool
  payload_length :: "64 word"
  masking_key :: bytes

text \<open>
  The protocol object talks to the server through three callbacks. A call of a callback
  is an event of the run, in the order the calls are made; a callback that is not set
  (\<^verbatim>\<open>if (rawFrameCallback)\<close> and its siblings) produces no event.
\<close>

datatype event =
    RawFrameEv bytes    \<comment> \<open>\<^verbatim>\<open>rawFrameCallback_(frame)\<close>: bytes sent to the peer as they are\<close>
  | PacketEv bytes      \<comment> \<open>\<^verbatim>\<open>packetCallback_(payload)\<close>: a message handed to the application\<close>
  | ErrorEv string      \<comment> \<open>\<^verbatim>\<open>errorCallback_(message)\<close>\<close>

record WebSocketProtocol =
  state :: State
  buffer :: bytes
  rawFrameCallback :: bool
  packetCallback :: bool
  errorCallback :: bool

definition MAX_FRAME_SIZE :: nat where
  "MAX_FRAME_SIZE = 10 * 1024 * 1024"

section \<open>WebSocket protocol: UTF-8 check\<close>

text \<open>
  \<^verbatim>\<open>isValidUtf8\<close>: the loop over index \<open>i\<close> becomes recursion on the rest of the
  string from \<open>i\<close>; \<open>c\<close> is \<^verbatim>\<open>s[i]\<close> and \<open>s\<close> the bytes after it, so
  \<^verbatim>\<open>i + k >= len\<close> is \<open>length s < k\<close>.
\<close>

fun isValidUtf8 :: "bytes \<Rightarrow> bool" where
  "isValidUtf8 [] = True"
| "isValidUtf8 (c # s) =
     (if c < 0x80 then isValidUtf8 s
      else if c AND 0xE0 = 0xC0 then
        (if length s < 1 \<or> (s ! 0) AND 0xC0 \<noteq> 0x80 then False
         else isValidUtf8 (drop 1 s))
      else if c AND 0xF0 = 0xE0 then
        (if length s < 2 \<or> (s ! 0) AND 0xC0 \<noteq> 0x80 \<or> (s ! 1) AND 0xC0 \<noteq> 0x80 then False
         else isValidUtf8 (drop 2 s))
      else if c AND 0xF8 = 0xF0 then
        (if length s < 3 \<or> (s ! 0) AND 0xC0 \<noteq> 0x80 \<or> (s ! 1) AND 0xC0 \<noteq> 0x80
            \<or> (s ! 2) AND 0xC0 \<noteq> 0x80 then False
         else isValidUtf8 (drop 3 s))
      else False)"

section \<open>WebSocket protocol: building frames\<close>

definition writeUint16 :: "16 word \<Rightarrow> bytes" where
  "writeUint16 v = [ucast (drop_bit 8 v AND 0xFF), ucast (v AND 0xFF)]"

definition writeUint64 :: "64 word \<Rightarrow> bytes" where
  "writeUint64 v = map (\<lambda>i. ucast (drop_bit (i * 8) v AND 0xFF)) [7, 6, 5, 4, 3, 2, 1, 0]"

definition readUint16 :: "bytes \<Rightarrow> 16 word" where
  "readUint16 d = push_bit 8 (ucast (d ! 0)) OR ucast (d ! 1)"

definition readUint64 :: "bytes \<Rightarrow> 64 word" where
  "readUint64 d = fold (\<lambda>i v. push_bit 8 v OR ucast (d ! i)) [0, 1, 2, 3, 4, 5, 6, 7] 0"

text \<open>\<^verbatim>\<open>createFrame(opcode, payload, fin)\<close>: server frames are never masked.\<close>

definition createFrame :: "FrameType \<Rightarrow> bytes \<Rightarrow> bool \<Rightarrow> bytes" where
  "createFrame opc payload fn =
     (let byte1 = (if fn then 0x80 else 0) OR opc;
          payloadLength = length payload
      in [byte1] @
         (if payloadLength < 126 then [of_nat payloadLength]
          else if payloadLength \<le> 0xFFFF then [126] @ writeUint16 (of_nat payloadLength)
          else [127] @ writeUint64 (of_nat payloadLength)) @
         payload)"

definition packPong :: "bytes \<Rightarrow> bytes" where
  "packPong d = createFrame PONG d True"

definition packClose :: "16 word \<Rightarrow> string \<Rightarrow> bytes" where
  "packClose code reason = createFrame CLOSE (writeUint16 code @ bytes_of reason) True"

section \<open>WebSocket protocol: parsing frames\<close>

text \<open>
  \<^verbatim>\<open>parseFrameHeader\<close> returns \<^verbatim>\<open>false\<close> (here \<open>None\<close>) when the header is not
  complete yet and when the payload length exceeds \<^verbatim>\<open>MAX_FRAME_SIZE\<close>; the second case
  calls the error callback first. On success it yields the header and its size.
  The masking key of an unmasked frame is never read; the model fills it with zeros.
\<close>

definition parseFrameHeader ::
  "WebSocketProtocol \<Rightarrow> bytes \<Rightarrow> (FrameHeader \<times> nat) option \<times> event list" where
  "parseFrameHeader ws d =
     (if length d < 2 then (None, [])
      else
        let byte1 = d ! 0; byte2 = d ! 1;
            msk = (byte2 AND 0x80 \<noteq> 0);
            len7 = byte2 AND 0x7F
        in
          if len7 = 126 \<and> length d < 2 + 2 then (None, [])
          else if len7 = 127 \<and> length d < 2 + 8 then (None, [])
          else
            let plen = (if len7 = 126 then ucast (readUint16 (drop 2 d))
                        else if len7 = 127 then readUint64 (drop 2 d)
                        else ucast len7);
                pos = (if len7 = 126 then 4 else if len7 = 127 then 10 else 2)
            in
              if msk \<and> length d < pos + 4 then (None, [])
              else if unat plen > MAX_FRAME_SIZE then
                (None, if errorCallback ws then [ErrorEv ''Frame too large''] else [])
              else
                (Some (\<lparr> fin = (byte1 AND 0x80 \<noteq> 0), rsv1 = (byte1 AND 0x40 \<noteq> 0),
                         rsv2 = (byte1 AND 0x20 \<noteq> 0), rsv3 = (byte1 AND 0x10 \<noteq> 0),
                         opcode = byte1 AND 0x0F, masked = msk, payload_length = plen,
                         masking_key = (if msk then take 4 (drop pos d) else [0, 0, 0, 0]) \<rparr>,
                       if msk then pos + 4 else pos),
                 []))"

text \<open>
  The payload \<^verbatim>\<open>parseFrame\<close> extracts once the whole frame is in the buffer:
  the \<^verbatim>\<open>payload_length\<close> bytes after the header, unmasked when the header says so.
\<close>

definition frame_payload :: "FrameHeader \<Rightarrow> nat \<Rightarrow> bytes \<Rightarrow> bytes" where
  "frame_payload header headerSize d =
     (let payload = take (unat (payload_length header)) (drop headerSize d)
      in if masked header then unmaskPayload payload (masking_key header) else payload)"

text \<open>
  \<^verbatim>\<open>parseFrame(data, length, bytesConsumed)\<close> returns the boolean result, the value left
  in \<^verbatim>\<open>bytesConsumed\<close>, the protocol object after the call and the callbacks made.
\<close>

definition parseFrame ::
  "WebSocketProtocol \<Rightarrow> bytes \<Rightarrow> bool \<times> nat \<times> WebSocketProtocol \<times> event list" where
  "parseFrame ws d =
     (if length d < 2 then (False, 0, ws, [])
      else if (d ! 0) AND 0x0F > 0x0A then (False, 0, ws, [])
      else
        case parseFrameHeader ws d of
          (None, evs) \<Rightarrow> (False, 0, ws, evs)
        | (Some (header, headerSize), evs) \<Rightarrow>
            let totalFrameSize = headerSize + unat (payload_length header) in
            if length d < totalFrameSize then (False, 0, ws, evs)
            else
              let payloadData = frame_payload header headerSize d
              in
                if opcode header = TEXT then
                  (if \<not> isValidUtf8 payloadData then
                     (if state ws = CLOSED then (False, totalFrameSize, ws, evs)
                      else
                        (False, totalFrameSize, ws\<lparr>state := CLOSED\<rparr>,
                         evs
                         @ (if rawFrameCallback ws
                            then [RawFrameEv (packClose 1007 ''Invalid UTF-8 in TEXT frame'')] else [])
                         @ (if errorCallback ws
                            then [ErrorEv ''Invalid UTF-8 in TEXT frame (opcode: TEXT)''] else [])))
                   else
                     (True, totalFrameSize, ws,
                      evs @ (if packetCallback ws then [PacketEv payloadData] else [])))
                else if opcode header = BINARY then
                  (True, totalFrameSize, ws,
                   evs @ (if packetCallback ws then [PacketEv payloadData] else []))
                else if opcode header = PING then
                  (True, totalFrameSize, ws,
                   evs @ (if rawFrameCallback ws then [RawFrameEv (packPong payloadData)] else []))
                else if opcode header = PONG then
                  (True, totalFrameSize, ws, evs)
                else if opcode header = CLOSE then
                  (False, totalFrameSize, ws\<lparr>state := CLOSED\<rparr>, evs)
                else
                  (False, totalFrameSize, ws\<lparr>state := CLOSED\<rparr>,
                   evs
                   @ (if errorCallback ws
                      then [ErrorEv (''Unknown frame type: '' @ to_string (unat (opcode header)))]
                      else [])
                   @ (if rawFrameCallback ws
                      then [RawFrameEv (packClose 1003 ''Unknown frame type'')] else [])))"

section \<open>Handshake accept token: SHA-1 and Base64\<close>

text \<open>
  Modelled from the spec: \<^verbatim>\<open>SHA1\<close> is OpenSSL's function and \<^verbatim>\<open>base64_encode\<close> is
  declared in \<^verbatim>\<open>base64.h\<close>; the body of neither is among the sources. The spec names them
  as SHA-1 and Base64, so they are modelled as the standard algorithms: SHA-1 as in
  FIPS 180 (padding, 80-word message schedule, 80 rounds per 64-byte block, big-endian
  digest) and Base64 as in RFC 4648 (standard alphabet, \<open>=\<close> padding).
\<close>

definition rotl32 :: "nat \<Rightarrow> 32 word \<Rightarrow> 32 word" where
  "rotl32 n w = push_bit n w OR drop_bit (32 - n) w"

definition sha1_pad :: "bytes \<Rightarrow> bytes" where
  "sha1_pad m =
     m @ [0x80] @ replicate ((119 - length m mod 64) mod 64) 0
       @ map (\<lambda>i. ucast (drop_bit (i * 8) (of_nat (8 * length m) :: 64 word)))
           [7, 6, 5, 4, 3, 2, 1, 0]"

definition be32 :: "byte \<Rightarrow> byte \<Rightarrow> byte \<Rightarrow> byte \<Rightarrow> 32 word" where
  "be32 a b c d =
     push_bit 24 (ucast a) OR push_bit 16 (ucast b) OR push_bit 8 (ucast c) OR ucast d"

fun sha1_words :: "bytes \<Rightarrow> 32 word list" where
  "sha1_words (a # b # c # d # r) = be32 a b c d # sha1_words r"
| "sha1_words _ = []"

text \<open>
  The message schedule: word \<open>t\<close>, for \<open>t\<close> from 16 to 79, is the XOR of the words
  3, 8, 14 and 16 places before it, rotated left by one. While it is built the list holds
  the newest word first, so the word \<open>k\<close> places back is at index \<open>k - 1\<close>.
\<close>

definition sha1_schedule :: "32 word list \<Rightarrow> 32 word list" where
  "sha1_schedule w16 =
     rev (fold (\<lambda>t w. rotl32 1 (w ! 2 XOR w ! 7 XOR w ! 13 XOR w ! 15) # w) [16..<80] (rev w16))"

type_synonym sha1_state = "32 word \<times> 32 word \<times> 32 word \<times> 32 word \<times> 32 word"

definition sha1_f :: "nat \<Rightarrow> 32 word \<Rightarrow> 32 word \<Rightarrow> 32 word \<Rightarrow> 32 word" where
  "sha1_f t b c d =
     (if t < 20 then (b AND c) OR (NOT b AND d)
      else if t < 40 then b XOR c XOR d
      else if t < 60 then (b AND c) OR (b AND d) OR (c AND d)
      else b XOR c XOR d)"

definition sha1_k :: "nat \<Rightarrow> 32 word" where
  "sha1_k t = (if t < 20 then 0x5A827999 else if t < 40 then 0x6ED9EBA1
               else if t < 60 then 0x8F1BBCDC else 0xCA62C1D6)"

fun sha1_round :: "nat \<times> 32 word \<Rightarrow> sha1_state \<Rightarrow> sha1_state" where
  "sha1_round (t, w) (a, b, c, d, e) =
     (rotl32 5 a + sha1_f t b c d + e + sha1_k t + w, a, rotl32 30 b, c, d)"

fun sha1_add :: "sha1_state \<Rightarrow> sha1_state \<Rightarrow> sha1_state" where
  "sha1_add (a, b, c, d, e) (a', b', c', d', e') = (a + a', b + b', c + c', d + d', e + e')"

definition sha1_block :: "sha1_state \<Rightarrow> bytes \<Rightarrow> sha1_state" where
  "sha1_block h blk =
     sha1_add h (fold sha1_round (zip [0..<80] (sha1_schedule (sha1_words blk))) h)"

function sha1_blocks :: "sha1_state \<Rightarrow> bytes \<Rightarrow> sha1_state" where
  "sha1_blocks h m =
     (if length m < 64 then h else sha1_blocks (sha1_block h (take 64 m)) (drop 64 m))"
  by pat_completeness auto
termination
  by (relation "measure (\<lambda>(h, m). length m)") auto

declare sha1_blocks.simps [simp del]

definition word_bytes :: "32 word \<Rightarrow> bytes" where
  "word_bytes w = map (\<lambda>i. ucast (drop_bit (i * 8) w)) [3, 2, 1, 0]"

fun sha1_out :: "sha1_state \<Rightarrow> bytes" where
  "sha1_out (a, b, c, d, e) =
     word_bytes a @ word_bytes b @ word_bytes c @ word_bytes d @ word_bytes e"

definition sha1_init :: sha1_state where
  "sha1_init = (0x67452301, 0xEFCDAB89, 0x98BADCFE, 0x10325476, 0xC3D2E1F0)"

text \<open>
  Modelled from the spec: \<^verbatim>\<open>SHA1\<close>, which the spec calls the SHA-1 digest of its
  argument; the 20 bytes of FIPS 180.
\<close>

definition SHA1 :: "bytes \<Rightarrow> bytes" where
  "SHA1 m = sha1_out (sha1_blocks sha1_init (sha1_pad m))"

definition base64_chars :: string where
  "base64_chars = ''ABCDEFGHIJKLMNOPQRSTUVWXYZabcdefghijklmnopqrstuvwxyz0123456789+/''"

definition b64 :: "byte \<Rightarrow> char" where
  "b64 i = base64_chars ! unat i"

text \<open>
  Modelled from the spec: \<^verbatim>\<open>base64_encode\<close>, which the spec calls the Base64 encoding
  of its argument; RFC 4648 with the standard alphabet and \<open>=\<close> padding.
\<close>

fun base64_encode :: "bytes \<Rightarrow> string" where
  "base64_encode (a # b # c # r) =
     [b64 (drop_bit 2 a), b64 (push_bit 4 (a AND 0x03) OR drop_bit 4 b),
      b64 (push_bit 2 (b AND 0x0F) OR drop_bit 6 c), b64 (c AND 0x3F)] @ base64_encode r"
| "base64_encode [a, b] =
     [b64 (drop_bit 2 a), b64 (push_bit 4 (a AND 0x03) OR drop_bit 4 b),
      b64 (push_bit 2 (b AND 0x0F)), CHR ''='']"
| "base64_encode [a] =
     [b64 (drop_bit 2 a), b64 (push_bit 4 (a AND 0x03)), CHR ''='', CHR ''='']"
| "base64_encode [] = []"

text \<open>\<^verbatim>\<open>WebSocketProtocol::calculateHandshakeKey\<close> and the constant it appends.\<close>

definition WEBSOCKET_GUID :: string where
  "WEBSOCKET_GUID = ''258EAFA5-E914-47DA-95CA-C5AB0DC85B11''"

definition calculateHandshakeKey :: "string \<Rightarrow> string" where
  "calculateHandshakeKey clientKey =
     (let concatenated = clientKey @ WEBSOCKET_GUID
      in base64_encode (SHA1 (bytes_of concatenated)))"

section \<open>WebSocket protocol: handshake\<close>

text \<open>
  \<^verbatim>\<open>std::string::find(pattern, pos)\<close>: the least index at or after \<open>pos\<close> where the
  pattern occurs, \<open>None\<close> for \<^verbatim>\<open>npos\<close>.
\<close>

fun starts_with :: "string \<Rightarrow> string \<Rightarrow> bool" where
  "starts_with [] s = True"
| "starts_with (p # ps) [] = False"
| "starts_with (p # ps) (c # cs) = (p = c \<and> starts_with ps cs)"

fun find_from :: "string \<Rightarrow> string \<Rightarrow> nat \<Rightarrow> nat option" where
  "find_from pat [] i = (if pat = [] then Some i else None)"
| "find_from pat (c # cs) i =
     (if starts_with pat (c # cs) then Some i else find_from pat cs (Suc i))"

definition string_find :: "string \<Rightarrow> string \<Rightarrow> nat \<Rightarrow> nat option" where
  "string_find s pat pos = (if pos > length s then None else find_from pat (drop pos s) pos)"

definition CR :: char where "CR = CHR 0x0D"
definition LF :: char where "LF = CHR 0x0A"
definition TAB :: char where "TAB = CHR 0x09"

definition crlf :: string where
  "crlf = [CR, LF]"

text \<open>
  The two \<^verbatim>\<open>erase\<close> calls on \<^verbatim>\<open>clientKey\<close>: drop the leading and then the trailing
  characters among space, tab, CR and LF.
\<close>

definition is_space :: "char \<Rightarrow> bool" where
  "is_space c = (c = CHR '' '' \<or> c = TAB \<or> c = CR \<or> c = LF)"

definition trim :: "string \<Rightarrow> string" where
  "trim s = rev (dropWhile is_space (rev (dropWhile is_space s)))"

definition generateHandshakeResponse :: "string \<Rightarrow> string" where
  "generateHandshakeResponse clientKey =
     (let acceptKey = calculateHandshakeKey clientKey
      in ''HTTP/1.1 101 Switching Protocols'' @ crlf
         @ ''Upgrade: websocket'' @ crlf
         @ ''Connection: Upgrade'' @ crlf
         @ ''Sec-WebSocket-Accept: '' @ acceptKey @ crlf
         @ crlf)"

text \<open>
  \<^verbatim>\<open>handleHandshake(data)\<close> looks only at the bytes of the current read. It returns
  \<^verbatim>\<open>true\<close> after handing the response to the raw-frame callback.
\<close>

definition handleHandshake :: "WebSocketProtocol \<Rightarrow> string \<Rightarrow> bool \<times> event list" where
  "handleHandshake ws d =
     (if string_find d ''GET '' 0 \<noteq> Some 0 then (False, [])
      else if string_find d ''Upgrade:'' 0 = None \<and> string_find d ''upgrade:'' 0 = None
        then (False, [])
      else if string_find d ''websocket'' 0 = None \<and> string_find d ''WebSocket'' 0 = None
        then (False, [])
      else
        case (case string_find d ''Sec-WebSocket-Key:'' 0 of
                Some p \<Rightarrow> Some (''Sec-WebSocket-Key:'', p)
              | None \<Rightarrow>
                  (case string_find d ''sec-websocket-key:'' 0 of
                     Some p \<Rightarrow> Some (''sec-websocket-key:'', p)
                   | None \<Rightarrow> None)) of
          None \<Rightarrow> (False, [])
        | Some (keyHeader, keyPos0) \<Rightarrow>
            let keyPos1 = keyPos0 + length keyHeader;
                keyPos = keyPos1 + length (takeWhile (\<lambda>c. c = CHR '' '') (drop keyPos1 d));
                keyEnd = (case string_find d crlf keyPos of
                            Some e \<Rightarrow> e
                          | None \<Rightarrow>
                              (case string_find d [LF] keyPos of
                                 Some e \<Rightarrow> e
                               | None \<Rightarrow> length d));
                clientKey = trim (take (keyEnd - keyPos) (drop keyPos d));
                response = generateHandshakeResponse clientKey
            in if rawFrameCallback ws then (True, [RawFrameEv (bytes_of response)])
               else (False, []))"

section \<open>WebSocket protocol: receiving data\<close>

lemma parseFrame_True:
  assumes "parseFrame ws d = (True, n, ws', evs)"
  shows "0 < n \<and> ws' = ws"
proof -
  from assms have len: "\<not> length d < 2"
    by (auto simp: parseFrame_def)
  from assms obtain header headerSize evs0
    where hdr: "parseFrameHeader ws d = (Some (header, headerSize), evs0)"
    by (cases "parseFrameHeader ws d")
       (auto simp: parseFrame_def split: if_splits option.splits)
  from hdr len have "2 \<le> headerSize"
    by (auto simp: parseFrameHeader_def Let_def split: if_splits)
  with assms hdr show ?thesis
    by (auto simp: parseFrame_def Let_def split: if_splits)
qed

text \<open>
  The frame loop of \<^verbatim>\<open>onDataReceived\<close> in the states OPEN and CLOSING:
  \<open>totalConsumed\<close> counts the bytes of the buffer parsed so far, \<open>len\<close> is the length
  of the current read, \<open>evs\<close> the callbacks made so far.
\<close>

function frame_loop ::
  "WebSocketProtocol \<Rightarrow> nat \<Rightarrow> nat \<Rightarrow> event list \<Rightarrow> nat \<times> WebSocketProtocol \<times> event list" where
  "frame_loop ws totalConsumed len evs =
     (if totalConsumed < length (buffer ws) then
        (case parseFrame ws (drop totalConsumed (buffer ws)) of
           (ok, bytesConsumed, ws', evs') \<Rightarrow>
             if \<not> ok then
               (let total = (if bytesConsumed > 0 then totalConsumed + bytesConsumed
                             else totalConsumed)
                in (if total \<noteq> 0 then total else len,
                    if total > 0 then ws'\<lparr>buffer := drop total (buffer ws')\<rparr> else ws',
                    evs @ evs'))
             else frame_loop ws' (totalConsumed + bytesConsumed) len (evs @ evs'))
      else
        (totalConsumed,
         if totalConsumed > 0 then ws\<lparr>buffer := drop totalConsumed (buffer ws)\<rparr> else ws,
         evs))"
  by pat_completeness auto
termination
  apply (relation "measure (\<lambda>(ws, totalConsumed, len, evs). length (buffer ws) - totalConsumed)")
   apply simp
  apply (auto dest!: parseFrame_True [OF sym])
  done

declare frame_loop.simps [simp del]

text \<open>
  \<^verbatim>\<open>onDataReceived(data, length)\<close> returns the number of bytes it reports as
  consumed, the protocol object after the call and the callbacks made.
\<close>

definition onDataReceived ::
  "WebSocketProtocol \<Rightarrow> bytes \<Rightarrow> nat \<times> WebSocketProtocol \<times> event list" where
  "onDataReceived ws d =
     (if state ws = CONNECTING then
        (case handleHandshake ws (string_of d) of
           (True, evs) \<Rightarrow> (length d, ws\<lparr>state := OPEN, buffer := []\<rparr>, evs)
         | (False, evs) \<Rightarrow>
             (length d, ws\<lparr>state := CLOSED\<rparr>,
              evs @ (if errorCallback ws
                     then [ErrorEv ''Handshake failed (incomplete or invalid)''] else [])))
      else if state ws = OPEN \<or> state ws = CLOSING then
        frame_loop (ws\<lparr>buffer := buffer ws @ d\<rparr>) 0 (length d) []
      else if state ws = CLOSED then (length d, ws, [])
      else (length d, ws, []))"

section \<open>WebSocket protocol: instances\<close>

text \<open>
  The constructor leaves the callbacks unset; \<^verbatim>\<open>ApplicationServer::onDataReceived\<close>
  creates one instance per client and sets all three.
\<close>

definition WebSocketProtocol_new :: WebSocketProtocol where
  "WebSocketProtocol_new =
     \<lparr> state = CONNECTING, buffer = [], rawFrameCallback = False, packetCallback = False,
       errorCallback = False \<rparr>"

definition client_instance :: WebSocketProtocol where
  "client_instance =
     WebSocketProtocol_new
       \<lparr> rawFrameCallback := True, packetCallback := True, errorCallback := True \<rparr>"

text \<open>
  The spec asks for strict UTF-8. Following the spec's word, \<open>strict_utf8\<close> is
  well-formedness as in RFC 3629: shortest encodings only, no surrogates, nothing above
  U+10FFFF. It is what the claim compares \<^verbatim>\<open>isValidUtf8\<close> with, not a translation of
  code.
\<close>

definition cont_byte :: "byte \<Rightarrow> bool" where
  "cont_byte c = (0x80 \<le> c \<and> c \<le> 0xBF)"

fun strict_utf8 :: "bytes \<Rightarrow> bool" where
  "strict_utf8 [] = True"
| "strict_utf8 (c # s) =
     (if c \<le> 0x7F then strict_utf8 s
      else if 0xC2 \<le> c \<and> c \<le> 0xDF then
        (case s of c1 # r \<Rightarrow> cont_byte c1 \<and> strict_utf8 r | _ \<Rightarrow> False)
      else if 0xE0 \<le> c \<and> c \<le> 0xEF then
        (case s of
           c1 # c2 # r \<Rightarrow>
             (if c = 0xE0 then 0xA0 \<le> c1 \<and> c1 \<le> 0xBF
              else if c = 0xED then 0x80 \<le> c1 \<and> c1 \<le> 0x9F
              else cont_byte c1)
             \<and> cont_byte c2 \<and> strict_utf8 r
         | _ \<Rightarrow> False)
      else if 0xF0 \<le> c \<and> c \<le> 0xF4 then
        (case s of
           c1 # c2 # c3 # r \<Rightarrow>
             (if c = 0xF0 then 0x90 \<le> c1 \<and> c1 \<le> 0xBF
              else if c = 0xF4 then 0x80 \<le> c1 \<and> c1 \<le> 0x8F
              else cont_byte c1)
             \<and> cont_byte c2 \<and> cont_byte c3 \<and> strict_utf8 r
         | _ \<Rightarrow> False)
      else False)"

text \<open>
  An upgrade request as a client sends it, cut in the middle of the \<^verbatim>\<open>Upgrade\<close> header
  into the bytes of a first and of a second read.
\<close>

definition sample_request_part1 :: string where
  "sample_request_part1 =
     ''GET /chat HTTP/1.1'' @ crlf @ ''Host: example.com'' @ crlf @ ''Upgrade: webs''"

definition sample_request_part2 :: string where
  "sample_request_part2 =
     ''ocket'' @ crlf @ ''Connection: Upgrade'' @ crlf
     @ ''Sec-WebSocket-Key: dGhlIHNhbXBsZSBub25jZQ=='' @ crlf
     @ ''Sec-WebSocket-Version: 13'' @ crlf @ crlf"

section \<open>RESP protocol: reading numbers\<close>

text \<open>
  The decoder reads the count and length fields with \<^verbatim>\<open>std::stoll\<close>, which throws.
  An exception that leaves a function is the \<open>Inl\<close> side of its result.
\<close>

datatype exn = invalid_argument | out_of_range

text \<open>
  \<^verbatim>\<open>std::stoll(str)\<close>, base 10: skip leading white space, take an optional sign and the
  longest run of decimal digits after it, ignore the rest of the string. No digit at that
  place throws \<^verbatim>\<open>std::invalid_argument\<close>; a value outside the range of
  \<^verbatim>\<open>long long\<close> throws \<^verbatim>\<open>std::out_of_range\<close>.
\<close>

definition isspace :: "char \<Rightarrow> bool" where
  "isspace c = (c \<in> set [CHR '' '', CHR 0x09, CHR 0x0A, CHR 0x0B, CHR 0x0C, CHR 0x0D])"

definition isdigit :: "char \<Rightarrow> bool" where
  "isdigit c = (c \<in> set ''0123456789'')"

definition digit_value :: "char \<Rightarrow> nat" where
  "digit_value c = of_char c - 48"

definition digits_value :: "string \<Rightarrow> nat" where
  "digits_value ds = foldl (\<lambda>v c. 10 * v + digit_value c) 0 ds"

definition stoll :: "string \<Rightarrow> exn + int" where
  "stoll str =
     (let s1 = dropWhile isspace str;
          negative = (s1 \<noteq> [] \<and> hd s1 = CHR ''-'');
          s2 = (if s1 \<noteq> [] \<and> (hd s1 = CHR ''-'' \<or> hd s1 = CHR ''+'') then tl s1 else s1);
          ds = takeWhile isdigit s2
      in if ds = [] then Inl invalid_argument
         else
           let v = (if negative then - int (digits_value ds) else int (digits_value ds))
           in if v < - (2 ^ 63) \<or> 2 ^ 63 - 1 < v then Inl out_of_range else Inr v)"

text \<open>
  Arithmetic on \<^verbatim>\<open>size_t\<close> with a signed 64-bit operand: the sum modulo \<open>2 ^ 64\<close>.
  A negative \<^verbatim>\<open>int64_t\<close> passed as a \<^verbatim>\<open>size_t\<close> count is its value modulo \<open>2 ^ 64\<close>.
\<close>

definition size_add :: "nat \<Rightarrow> int \<Rightarrow> nat" where
  "size_add pos k = nat ((int pos + k) mod 2 ^ 64)"

definition to_size :: "int \<Rightarrow> nat" where
  "to_size k = nat (k mod 2 ^ 64)"

text \<open>
  \<^verbatim>\<open>buf.substr(pos, n)\<close> for \<open>pos \<le> length buf\<close>, which holds at each call of the
  decoder (the positions come from \<^verbatim>\<open>find\<close> on the same string): at most \<open>n\<close>
  characters from \<open>pos\<close>.
\<close>

definition substr :: "string \<Rightarrow> nat \<Rightarrow> nat \<Rightarrow> string" where
  "substr s pos n = take n (drop pos s)"

section \<open>RESP protocol: decoding\<close>

text \<open>
  The loop \<^verbatim>\<open>for (int64_t i = 0; i < count; ++i)\<close> of \<^verbatim>\<open>resp_decode\<close>, as recursion on
  the number of rounds left; a count below zero leaves none. The result is the pair
  returned together with \<^verbatim>\<open>consumed\<close>.
\<close>

fun decode_items ::
  "string \<Rightarrow> nat \<Rightarrow> nat \<Rightarrow> string list \<Rightarrow> exn + (bool \<times> string list \<times> nat)" where
  "decode_items buf 0 pos out = Inr (True, out, pos)"
| "decode_items buf (Suc n) pos out =
     (if pos + 1 \<ge> length buf then Inr (False, [], 0)
      else if buf ! pos \<noteq> CHR ''$'' then Inr (False, [], 0)
      else
        case string_find buf crlf (pos + 1) of
          None \<Rightarrow> Inr (False, [], 0)
        | Some le \<Rightarrow>
            (case stoll (substr buf (pos + 1) (le - pos - 1)) of
               Inl e \<Rightarrow> Inl e
             | Inr len \<Rightarrow>
                 let pos1 = le + 2 in
                 if size_add pos1 (len + 2) > length buf then Inr (False, [], 0)
                 else decode_items buf n (size_add pos1 (len + 2))
                        (out @ [substr buf pos1 (to_size len)])))"

definition resp_decode :: "string \<Rightarrow> exn + (bool \<times> string list \<times> nat)" where
  "resp_decode buf =
     (if buf = [] then Inr (False, [], 0)
      else if buf ! 0 \<noteq> CHR ''*'' then Inr (False, [], 0)
      else
        case string_find buf crlf 1 of
          None \<Rightarrow> Inr (False, [], 0)
        | Some le \<Rightarrow>
            (case stoll (substr buf 1 (le - 1)) of
               Inl e \<Rightarrow> Inl e
             | Inr count \<Rightarrow> decode_items buf (nat count) (le + 2) []))"

section \<open>RESP protocol: replies\<close>

definition formatSimpleString :: "string \<Rightarrow> string" where
  "formatSimpleString str = ''+'' @ str @ crlf"

definition formatError :: "string \<Rightarrow> string" where
  "formatError err = ''-'' @ err @ crlf"

definition formatInteger :: "nat \<Rightarrow> string" where
  "formatInteger v = '':'' @ to_string v @ crlf"

definition formatBulkString :: "string \<Rightarrow> string" where
  "formatBulkString str = ''$'' @ to_string (length str) @ crlf @ str @ crlf"

definition formatArray :: "string list \<Rightarrow> string" where
  "formatArray array =
     ''*'' @ to_string (length array) @ crlf @ concat (map formatBulkString array)"

definition formatNull :: string where
  "formatNull = ''$-1'' @ crlf"

section \<open>RESP protocol: commands\<close>

text \<open>
  \<^verbatim>\<open>::toupper\<close> in the C locale: the 26 lower-case letters map to upper case, every other
  byte to itself.
\<close>

definition toupper :: "char \<Rightarrow> char" where
  "toupper c =
     (case map_of (zip ''abcdefghijklmnopqrstuvwxyz'' ''ABCDEFGHIJKLMNOPQRSTUVWXYZ'') c of
        Some u \<Rightarrow> u
      | None \<Rightarrow> c)"

text \<open>
  \<^verbatim>\<open>m_stringData\<close>, the only store of \<^verbatim>\<open>PureRedisProtocol\<close>, as an association list
  with one entry per key. The header that declares the container is not among the
  sources, so the order in which the code's container is iterated is not known: the order
  in which \<^verbatim>\<open>KEYS\<close> lists the keys here, the order of first insertion, is a choice of
  the model and need not be the order of the code. Nothing proved below depends on it.
\<close>

type_synonym store = "(string \<times> string) list"

definition store_set :: "store \<Rightarrow> string \<Rightarrow> string \<Rightarrow> store" where
  "store_set st k v =
     (if k \<in> fst ` set st then map (\<lambda>(k', v'). if k' = k then (k', v) else (k', v')) st
      else st @ [(k, v)])"

definition store_erase :: "store \<Rightarrow> string \<Rightarrow> nat \<times> store" where
  "store_erase st k =
     (if k \<in> fst ` set st then (1, filter (\<lambda>(k', v'). k' \<noteq> k) st) else (0, st))"

fun erase_all :: "store \<Rightarrow> string list \<Rightarrow> nat \<Rightarrow> nat \<times> store" where
  "erase_all st [] deleted = (deleted, st)"
| "erase_all st (k # ks) deleted =
     (case store_erase st k of (n, st') \<Rightarrow> erase_all st' ks (deleted + n))"

definition quote :: char where
  "quote = CHR 0x27"

text \<open>
  \<^verbatim>\<open>executeRedisCommand(args)\<close> returns the reply and the store after the command. Its
  callers pass a non-empty \<open>args\<close>.
\<close>

definition executeRedisCommand :: "store \<Rightarrow> string list \<Rightarrow> string \<times> store" where
  "executeRedisCommand st args =
     (let cmd = map toupper (args ! 0) in
      if cmd = ''COMMAND'' then (formatArray [], st)
      else if cmd = ''PING'' then
        (if length args = 1 then (formatSimpleString ''PONG'', st)
         else if length args = 2 then (formatBulkString (args ! 1), st)
         else (formatError (''ERR wrong number of arguments for '' @ [quote] @ ''ping''
                            @ [quote] @ '' command''), st))
      else if cmd = ''SET'' \<and> length args = 3 then
        (formatSimpleString ''OK'', store_set st (args ! 1) (args ! 2))
      else if cmd = ''GET'' \<and> length args = 2 then
        (case map_of st (args ! 1) of
           None \<Rightarrow> (formatNull, st)
         | Some v \<Rightarrow> (formatBulkString v, st))
      else if cmd = ''DEL'' \<and> length args \<ge> 2 then
        (case erase_all st (tl args) 0 of (deleted, st') \<Rightarrow> (formatInteger deleted, st'))
      else if cmd = ''KEYS'' \<and> length args = 2 then
        (formatArray (map fst st), st)
      else (formatError (''ERR unknown command '' @ [quote] @ cmd @ [quote]), st))"

section \<open>RESP protocol: receiving data\<close>

definition HEARTBEAT_MAGIC :: string where
  "HEARTBEAT_MAGIC = [CHR 0xFA, CHR 0xFB, CHR 0xFC, CHR 0xFD]"

fun filterHeartbeat :: "string \<Rightarrow> string" where
  "filterHeartbeat (a # b # c # d # r) =
     (if [a, b, c, d] = HEARTBEAT_MAGIC then filterHeartbeat r else a # b # c # d # r)"
| "filterHeartbeat s = s"

definition filterNullBytes :: "string \<Rightarrow> string" where
  "filterNullBytes d = filter (\<lambda>c. c \<noteq> CHR 0x00) d"

text \<open>
  The object: the receive buffer of each client and the store. A reply handed to
  \<^verbatim>\<open>::send\<close> by \<^verbatim>\<open>sendDirectResponse\<close> is recorded with the descriptor it goes to;
  nothing is sent when the descriptor is not positive or the reply does not begin with
  one of the five RESP sigils.
\<close>

record PureRedisProtocol =
  m_clientBuffers :: "int \<Rightarrow> string"
  m_stringData :: store

definition sendDirectResponse :: "int \<Rightarrow> string \<Rightarrow> (int \<times> string) list" where
  "sendDirectResponse clientFd response =
     (if response \<noteq> [] \<and> hd response \<notin> set ''+-:$*'' then []
      else if clientFd > 0 then [(clientFd, response)]
      else [])"

text \<open>
  The drain loop \<^verbatim>\<open>while (true)\<close> of \<^verbatim>\<open>onClientDataReceived\<close>. It ends when a decode
  does not succeed; nothing in the code bounds it otherwise, so the result is \<open>None\<close>
  when it runs forever. An exception of the decoder ends the call (\<open>Inl\<close>).
\<close>

partial_function (option) drain ::
  "int \<Rightarrow> store \<Rightarrow> string \<Rightarrow> nat \<Rightarrow> (int \<times> string) list
   \<Rightarrow> (exn + (store \<times> string \<times> nat \<times> (int \<times> string) list)) option" where
  "drain clientFd st buf totalProcessed sent =
     (case resp_decode buf of
        Inl e \<Rightarrow> Some (Inl e)
      | Inr (success, args, consumed) \<Rightarrow>
          if \<not> success then Some (Inr (st, buf, totalProcessed, sent))
          else if args \<noteq> [] then
            (case executeRedisCommand st args of
               (response, st') \<Rightarrow>
                 drain clientFd st' (drop consumed buf) (totalProcessed + consumed)
                   (sent @ sendDirectResponse clientFd response))
          else drain clientFd st (drop consumed buf) (totalProcessed + consumed) sent)"

text \<open>
  Steps 2 and 3 of \<^verbatim>\<open>onClientDataReceived\<close>: the buffer is replaced by its filtered
  copy when the filters removed something.
\<close>

definition cleaned :: "string \<Rightarrow> string" where
  "cleaned buf =
     (let heartbeatFiltered = filterHeartbeat buf;
          cleanBuffer = filterNullBytes heartbeatFiltered
      in if length cleanBuffer \<noteq> length buf then cleanBuffer else buf)"

text \<open>
  \<^verbatim>\<open>onClientDataReceived(clientFd, data, len)\<close> returns the number of bytes processed,
  the object after the call and the replies sent.
\<close>

definition onClientDataReceived ::
  "PureRedisProtocol \<Rightarrow> int \<Rightarrow> string
   \<Rightarrow> (exn + (nat \<times> PureRedisProtocol \<times> (int \<times> string) list)) option" where
  "onClientDataReceived p clientFd d =
     (let buf = cleaned (m_clientBuffers p clientFd @ d)
      in case drain clientFd (m_stringData p) buf 0 [] of
           None \<Rightarrow> None
         | Some (Inl e) \<Rightarrow> Some (Inl e)
         | Some (Inr (st, rest, totalProcessed, sent)) \<Rightarrow>
             Some (Inr (totalProcessed,
                        p\<lparr>m_clientBuffers := (m_clientBuffers p)(clientFd := rest),
                          m_stringData := st\<rparr>,
                        sent)))"

section \<open>RESP protocol: samples\<close>

text \<open>
  A fresh protocol object, a request whose bulk length is \<open>-1\<close>, a request whose
  bulk length is \<open>-12\<close>, the negative of the number of bytes before the payload plus
  two, and a request whose count has no digit.
\<close>

definition sample_redis :: PureRedisProtocol where
  "sample_redis = \<lparr> m_clientBuffers = (\<lambda>fd. []), m_stringData = [] \<rparr>"

definition sample_negative_length :: string where
  "sample_negative_length = ''*1'' @ crlf @ ''$-1'' @ crlf @ ''X''"

definition sample_stuck :: string where
  "sample_stuck = ''*1'' @ crlf @ ''$-12'' @ crlf"

definition sample_nondecimal :: string where
  "sample_nondecimal = ''*x'' @ crlf"

section \<open>Connection engine: send queue\<close>

text \<open>
  The event mask of the multiplexer: \<^verbatim>\<open>READ | WRITE\<close> is the set of both.
\<close>

datatype EventType = READ | WRITE | ERROR














section \<open>Theorems: masking\<close>

lemma length_unmaskPayload: "length (unmaskPayload P K) = length P"
  by (simp add: unmaskPayload_def)

lemma nth_unmaskPayload:
  "i < length P \<Longrightarrow> unmaskPayload P K ! i = (P ! i) XOR (K ! (i mod 4))"
  by (simp add: unmaskPayload_def)

text \<open>
  Claim C7. For every 4-byte mask key \<open>K\<close> and every payload \<open>P\<close>, unmasking is the
  byte-wise XOR of byte \<open>i\<close> with key byte \<open>i mod 4\<close>, taken in array order, and
  applying it twice gives \<open>P\<close> back: \<open>unmask (mask (P, K), K) = P\<close>.
\<close>

theorem unmask_mask_identity:
  assumes "length K = 4"
  shows "unmaskPayload (unmaskPayload P K) K = P
       \<and> (\<forall>i < length P. unmaskPayload P K ! i = (P ! i) XOR (K ! (i mod 4)))"
proof
  show "unmaskPayload (unmaskPayload P K) K = P"
  proof (rule nth_equalityI)
    show "length (unmaskPayload (unmaskPayload P K) K) = length P"
      by (simp add: length_unmaskPayload)
  next
    fix i assume "i < length (unmaskPayload (unmaskPayload P K) K)"
    then have i: "i < length P" by (simp add: length_unmaskPayload)
    then have "unmaskPayload (unmaskPayload P K) K ! i
             = ((P ! i) XOR (K ! (i mod 4))) XOR (K ! (i mod 4))"
      by (simp add: nth_unmaskPayload length_unmaskPayload)
    also have "\<dots> = P ! i"
      by (simp add: xor.assoc)
    finally show "unmaskPayload (unmaskPayload P K) K ! i = P ! i" .
  qed
next
  show "\<forall>i < length P. unmaskPayload P K ! i = (P ! i) XOR (K ! (i mod 4))"
    by (simp add: nth_unmaskPayload)
qed

theorem unmask_mask_identity_witness:
  "length [0x37, 0xfa, 0x21, 0x3d :: byte] = 4
   \<and> unmaskPayload (unmaskPayload [0x48, 0x65, 0x6c, 0x6c, 0x6f] [0x37, 0xfa, 0x21, 0x3d])
         [0x37, 0xfa, 0x21, 0x3d] = [0x48, 0x65, 0x6c, 0x6c, 0x6f]
   \<and> unmaskPayload [0x48, 0x65, 0x6c, 0x6c, 0x6f] [0x37, 0xfa, 0x21, 0x3d]
       = [0x7f, 0x9f, 0x4d, 0x51, 0x58]"
proof -
  have k: "length [0x37, 0xfa, 0x21, 0x3d :: byte] = 4" by simp
  have "unmaskPayload [0x48, 0x65, 0x6c, 0x6c, 0x6f] [0x37, 0xfa, 0x21, 0x3d :: byte]
       = [0x7f, 0x9f, 0x4d, 0x51, 0x58]"
    by code_simp
  with k unmask_mask_identity [OF k, of "[0x48, 0x65, 0x6c, 0x6c, 0x6f]"]
  show ?thesis by simp
qed

section \<open>Theorems: WebSocket state machine\<close>

lemma string_of_bytes_of [simp]: "string_of (bytes_of s) = s"
proof -
  have "char_of (unat (of_char c :: byte)) = c" for c
  proof -
    have "(of_char c :: byte) = of_nat (of_char c)"
      by (simp add: of_nat_of_char)
    then have "unat (of_char c :: byte) = of_char c mod 256"
      by (simp add: unat_of_nat)
    then show ?thesis
      by simp
  qed
  then show ?thesis
    by (simp add: string_of_def bytes_of_def map_idI)
qed

lemma length_bytes_of [simp]: "length (bytes_of s) = length s"
  by (simp add: bytes_of_def)

lemmas ws_eval =
  onDataReceived_def frame_loop.simps parseFrame_def parseFrameHeader_def frame_payload_def
  Let_def MAX_FRAME_SIZE_def unmaskPayload_def client_instance_def WebSocketProtocol_new_def
  CONTINUATION_def TEXT_def BINARY_def CLOSE_def PING_def PONG_def

lemmas hs_eval =
  handleHandshake_def string_find_def crlf_def CR_def LF_def TAB_def
  sample_request_part1_def sample_request_part2_def

text \<open>
  Claim C10. Once the instance is in state CLOSED, \<^verbatim>\<open>onDataReceived\<close> reports the whole
  input as consumed, makes no callback (no outbound frame, no application packet) and
  leaves the state and the buffer as they are.
\<close>

theorem closed_ignores_input:
  assumes "state ws = CLOSED"
  shows "onDataReceived ws d = (length d, ws, [])"
  using assms by (simp add: onDataReceived_def)

theorem closed_ignores_input_witness:
  "state (client_instance\<lparr>state := CLOSED, buffer := [0x81]\<rparr>) = CLOSED
   \<and> onDataReceived (client_instance\<lparr>state := CLOSED, buffer := [0x81]\<rparr>)
         [0x81, 0x02, 0x68, 0x69]
       = (length [0x81, 0x02, 0x68, 0x69 :: byte],
          client_instance\<lparr>state := CLOSED, buffer := [0x81]\<rparr>, [])"
proof -
  have c: "state (client_instance\<lparr>state := CLOSED, buffer := [0x81]\<rparr>) = CLOSED"
    by simp
  from closed_ignores_input [OF c] c show ?thesis
    by blast
qed

subsection \<open>Opcodes\<close>

lemma parseFrameHeader_Some:
  assumes "parseFrameHeader ws d = (Some (h, hs), evs)"
  shows "opcode h = (d ! 0) AND 0x0F \<and> 2 \<le> length d \<and> 2 \<le> hs \<and> evs = []
         \<and> unat (payload_length h) \<le> MAX_FRAME_SIZE"
  using assms by (auto simp: parseFrameHeader_def Let_def split: if_splits)

text \<open>
  The guard at the head of \<^verbatim>\<open>parseFrame\<close>: while the first byte of the buffer carries
  an opcode above 0xA, every read in state OPEN or CLOSING is appended to the buffer and
  nothing else happens: no callback is made, nothing is consumed, the state stays as it
  is. The bytes behind that first byte are never parsed.
\<close>

lemma bad_opcode_blocks:
  assumes st: "state ws = OPEN \<or> state ws = CLOSING"
    and buf: "buffer ws = b # bs"
    and op: "0x0A < b AND 0x0F"
  shows "onDataReceived ws d = (length d, ws\<lparr>buffer := buffer ws @ d\<rparr>, [])"
proof -
  let ?ws = "ws\<lparr>buffer := buffer ws @ d\<rparr>"
  from buf op have "parseFrame ?ws (buffer ?ws) = (False, 0, ?ws, [])"
    by (simp add: parseFrame_def)
  then have "frame_loop ?ws 0 (length d) [] = (length d, ?ws, [])"
    using buf by (subst frame_loop.simps) simp
  with st show ?thesis
    by (auto simp: onDataReceived_def)
qed

text \<open>
  What \<^verbatim>\<open>parseFrame\<close> does with a frame that is complete in the buffer, on an instance
  with its callbacks set, opcode by opcode. TEXT with a payload that passes
  \<^verbatim>\<open>isValidUtf8\<close>, BINARY, PING and PONG are consumed without an error callback and
  without a state change; CLOSE moves the state to CLOSED without an error callback; each
  opcode from 0x3 to 0x7 reaches the default branch of the switch, which makes the error
  callback, sends a CLOSE frame with code 1003 and moves the state to CLOSED; an opcode
  above 0xA never reaches the switch.
\<close>

lemma opcode_dispatch:
  assumes hdr: "parseFrameHeader ws d = (Some (h, hs), [])"
    and complete: "hs + unat (payload_length h) \<le> length d"
    and cbs: "rawFrameCallback ws \<and> packetCallback ws \<and> errorCallback ws"
  shows "(opcode h = TEXT \<and> isValidUtf8 (frame_payload h hs d) \<longrightarrow>
            parseFrame ws d
            = (True, hs + unat (payload_length h), ws, [PacketEv (frame_payload h hs d)]))
       \<and> (opcode h = BINARY \<longrightarrow>
            parseFrame ws d
            = (True, hs + unat (payload_length h), ws, [PacketEv (frame_payload h hs d)]))
       \<and> (opcode h = PING \<longrightarrow>
            parseFrame ws d
            = (True, hs + unat (payload_length h), ws,
               [RawFrameEv (packPong (frame_payload h hs d))]))
       \<and> (opcode h = PONG \<longrightarrow>
            parseFrame ws d = (True, hs + unat (payload_length h), ws, []))
       \<and> (opcode h = CLOSE \<longrightarrow>
            parseFrame ws d
            = (False, hs + unat (payload_length h), ws\<lparr>state := CLOSED\<rparr>, []))
       \<and> (opcode h \<in> {3, 4, 5, 6, 7} \<longrightarrow>
            parseFrame ws d
            = (False, hs + unat (payload_length h), ws\<lparr>state := CLOSED\<rparr>,
               [ErrorEv (''Unknown frame type: '' @ to_string (unat (opcode h))),
                RawFrameEv (packClose 1003 ''Unknown frame type'')]))
       \<and> (0x0A < opcode h \<longrightarrow> parseFrame ws d = (False, 0, ws, []))"
proof -
  from parseFrameHeader_Some [OF hdr]
  have op: "(d ! 0) AND 0x0F = opcode h" and len: "\<not> length d < 2"
    by auto
  from complete have c: "\<not> length d < hs + unat (payload_length h)"
    by simp
  show ?thesis
    using cbs
    by (auto simp: parseFrame_def hdr op len c Let_def
          TEXT_def BINARY_def PING_def PONG_def CLOSE_def)
qed

lemma opcode_dispatch_samples:
  "parseFrameHeader (client_instance\<lparr>state := OPEN\<rparr>)
       [0x81, 0x82, 0x37, 0xfa, 0x21, 0x3d, 0x5f, 0x93]
     = (Some (\<lparr>fin = True, rsv1 = False, rsv2 = False, rsv3 = False, opcode = 1,
               masked = True, payload_length = 2,
               masking_key = [0x37, 0xfa, 0x21, 0x3d]\<rparr>, 6), [])
   \<and> parseFrame (client_instance\<lparr>state := OPEN\<rparr>)
       [0x81, 0x82, 0x37, 0xfa, 0x21, 0x3d, 0x5f, 0x93]
     = (True, 8, client_instance\<lparr>state := OPEN\<rparr>, [PacketEv [0x68, 0x69]])
   \<and> parseFrame (client_instance\<lparr>state := OPEN\<rparr>) [0x82, 0x01, 0xff]
     = (True, 3, client_instance\<lparr>state := OPEN\<rparr>, [PacketEv [0xff]])
   \<and> parseFrame (client_instance\<lparr>state := OPEN\<rparr>) [0x89, 0x01, 0x2a]
     = (True, 3, client_instance\<lparr>state := OPEN\<rparr>, [RawFrameEv [0x8a, 0x01, 0x2a]])
   \<and> parseFrame (client_instance\<lparr>state := OPEN\<rparr>) [0x8a, 0x00]
     = (True, 2, client_instance\<lparr>state := OPEN\<rparr>, [])
   \<and> parseFrame (client_instance\<lparr>state := OPEN\<rparr>) [0x88, 0x00]
     = (False, 2, client_instance\<lparr>state := CLOSED\<rparr>, [])
   \<and> parseFrame (client_instance\<lparr>state := OPEN\<rparr>) [0x83, 0x00]
     = (False, 2, client_instance\<lparr>state := CLOSED\<rparr>,
        [ErrorEv ''Unknown frame type: 3'',
         RawFrameEv (packClose 1003 ''Unknown frame type'')])
   \<and> parseFrame (client_instance\<lparr>state := OPEN\<rparr>) [0x8b, 0x00]
     = (False, 0, client_instance\<lparr>state := OPEN\<rparr>, [])"
proof -
  let ?ws = "client_instance\<lparr>state := OPEN\<rparr>"
  let ?plain = "\<lambda>opc n. \<lparr>fin = True, rsv1 = False, rsv2 = False, rsv3 = False, opcode = opc,
       masked = False, payload_length = n, masking_key = [0, 0, 0, 0 :: byte]\<rparr>"
  have cb: "rawFrameCallback ?ws \<and> packetCallback ?ws \<and> errorCallback ?ws"
    by (simp add: client_instance_def WebSocketProtocol_new_def)
  have closed: "?ws\<lparr>state := CLOSED\<rparr> = client_instance\<lparr>state := CLOSED\<rparr>"
    by simp
  have h1: "parseFrameHeader ?ws [0x81, 0x82, 0x37, 0xfa, 0x21, 0x3d, 0x5f, 0x93]
     = (Some (\<lparr>fin = True, rsv1 = False, rsv2 = False, rsv3 = False, opcode = 1,
               masked = True, payload_length = 2,
               masking_key = [0x37, 0xfa, 0x21, 0x3d]\<rparr>, 6), [])"
    by (simp add: parseFrameHeader_def Let_def MAX_FRAME_SIZE_def)
  have h2: "parseFrameHeader ?ws [0x82, 0x01, 0xff] = (Some (?plain 2 1, 2), [])"
    by (simp add: parseFrameHeader_def Let_def MAX_FRAME_SIZE_def)
  have h3: "parseFrameHeader ?ws [0x89, 0x01, 0x2a] = (Some (?plain 9 1, 2), [])"
    by (simp add: parseFrameHeader_def Let_def MAX_FRAME_SIZE_def)
  have h4: "parseFrameHeader ?ws [0x8a, 0x00] = (Some (?plain 10 0, 2), [])"
    by (simp add: parseFrameHeader_def Let_def MAX_FRAME_SIZE_def)
  have h5: "parseFrameHeader ?ws [0x88, 0x00] = (Some (?plain 8 0, 2), [])"
    by (simp add: parseFrameHeader_def Let_def MAX_FRAME_SIZE_def)
  have h6: "parseFrameHeader ?ws [0x83, 0x00] = (Some (?plain 3 0, 2), [])"
    by (simp add: parseFrameHeader_def Let_def MAX_FRAME_SIZE_def)
  have h7: "parseFrameHeader ?ws [0x8b, 0x00] = (Some (?plain 11 0, 2), [])"
    by (simp add: parseFrameHeader_def Let_def MAX_FRAME_SIZE_def)
  have e1: "parseFrame ?ws [0x81, 0x82, 0x37, 0xfa, 0x21, 0x3d, 0x5f, 0x93]
            = (True, 8, ?ws, [PacketEv [0x68, 0x69]])"
    using opcode_dispatch [OF h1 _ cb]
    by (simp add: TEXT_def frame_payload_def unmaskPayload_def)
  have e2: "parseFrame ?ws [0x82, 0x01, 0xff] = (True, 3, ?ws, [PacketEv [0xff]])"
    using opcode_dispatch [OF h2 _ cb] by (simp add: BINARY_def frame_payload_def)
  have e3: "parseFrame ?ws [0x89, 0x01, 0x2a] = (True, 3, ?ws, [RawFrameEv [0x8a, 0x01, 0x2a]])"
    using opcode_dispatch [OF h3 _ cb]
    by (simp add: PING_def PONG_def frame_payload_def packPong_def createFrame_def)
  have e4: "parseFrame ?ws [0x8a, 0x00] = (True, 2, ?ws, [])"
    using opcode_dispatch [OF h4 _ cb] by (simp add: PONG_def)
  have e5: "parseFrame ?ws [0x88, 0x00] = (False, 2, ?ws\<lparr>state := CLOSED\<rparr>, [])"
    using opcode_dispatch [OF h5 _ cb] by (simp add: CLOSE_def)
  have e6: "parseFrame ?ws [0x83, 0x00]
            = (False, 2, ?ws\<lparr>state := CLOSED\<rparr>,
               [ErrorEv ''Unknown frame type: 3'',
                RawFrameEv (packClose 1003 ''Unknown frame type'')])"
    using opcode_dispatch [OF h6 _ cb] by (simp add: to_string.simps digit_char_def)
  have e7: "parseFrame ?ws [0x8b, 0x00] = (False, 0, ?ws, [])"
    using opcode_dispatch [OF h7 _ cb] by simp
  from h1 e1 e2 e3 e4 e5 e6 e7 show ?thesis
    unfolding closed by blast
qed

text \<open>
  Claim C1 says that a CONTINUATION frame is handled without a protocol error and that
  every opcode outside the six listed is answered by a CLOSE frame with code 1003 and the
  move to CLOSED. The code does neither. With the frame 8B 00 (opcode 0xB) in state OPEN
  no CLOSE frame is sent and the state stays OPEN, the two bytes stay at the head of the
  buffer, and the valid TEXT frame 81 02 68 69 that follows is never delivered, although
  the same frame alone is delivered and the frame 83 00 (opcode 0x3) is answered by
  CLOSE 1003 and CLOSED. The CONTINUATION frame 80 00 takes the default branch of the
  switch: the error callback is made, CLOSE 1003 is sent and the state becomes CLOSED.
\<close>

theorem unknown_opcodes_mishandled:
  "onDataReceived (client_instance\<lparr>state := OPEN\<rparr>) [0x8B, 0x00]
     = (2, client_instance\<lparr>state := OPEN, buffer := [0x8B, 0x00]\<rparr>, [])
   \<and> onDataReceived (client_instance\<lparr>state := OPEN, buffer := [0x8B, 0x00]\<rparr>)
         [0x81, 0x02, 0x68, 0x69]
     = (4, client_instance\<lparr>state := OPEN,
                            buffer := [0x8B, 0x00, 0x81, 0x02, 0x68, 0x69]\<rparr>, [])
   \<and> onDataReceived (client_instance\<lparr>state := OPEN\<rparr>) [0x81, 0x02, 0x68, 0x69]
     = (4, client_instance\<lparr>state := OPEN\<rparr>, [PacketEv [0x68, 0x69]])
   \<and> onDataReceived (client_instance\<lparr>state := OPEN\<rparr>) [0x83, 0x00]
     = (2, client_instance\<lparr>state := CLOSED\<rparr>,
        [ErrorEv ''Unknown frame type: 3'',
         RawFrameEv (packClose 1003 ''Unknown frame type'')])
   \<and> onDataReceived (client_instance\<lparr>state := OPEN\<rparr>) [0x80, 0x00]
     = (2, client_instance\<lparr>state := CLOSED\<rparr>,
        [ErrorEv ''Unknown frame type: 0'',
         RawFrameEv (packClose 1003 ''Unknown frame type'')])"
  by (simp add: ws_eval to_string.simps digit_char_def)

subsection \<open>UTF-8 in TEXT frames\<close>

lemma parseFrameHeader_None:
  assumes "parseFrameHeader ws d = (None, evs)"
  shows "evs = [] \<or> evs = [ErrorEv ''Frame too large'']"
  using assms by (auto simp: parseFrameHeader_def Let_def split: if_splits)

lemma text_payload_checked:
  assumes "parseFrame ws d = (ok, n, ws', evs)"
    and "(d ! 0) AND 0x0F = TEXT"
    and "PacketEv p \<in> set evs"
  shows "isValidUtf8 p"
proof -
  from assms(1,3) have len: "\<not> length d < 2"
    by (auto simp: parseFrame_def)
  from assms(1,3) obtain header headerSize evs0
    where hdr: "parseFrameHeader ws d = (Some (header, headerSize), evs0)"
    by (cases "parseFrameHeader ws d")
       (auto simp: parseFrame_def split: if_splits option.splits
             dest!: parseFrameHeader_None)
  from parseFrameHeader_Some [OF hdr] assms(2)
  have op: "opcode header = TEXT" and e: "evs0 = []"
    by auto
  from assms(1,3) hdr op e len show ?thesis
    by (auto simp: parseFrame_def Let_def split: if_splits)
qed

lemma invalid_text_closed_1007:
  "onDataReceived (client_instance\<lparr>state := OPEN\<rparr>)
       [0x81, 0x82, 0x37, 0xfa, 0x21, 0x3d, 0xf4, 0xd2]
     = (8, client_instance\<lparr>state := CLOSED\<rparr>,
        [RawFrameEv (packClose 1007 ''Invalid UTF-8 in TEXT frame''),
         ErrorEv ''Invalid UTF-8 in TEXT frame (opcode: TEXT)''])"
  by (simp add: ws_eval)

text \<open>
  Claim C2 at the masked TEXT frame whose payload decodes to the bytes C0 80, the
  overlong encoding of U+0000: the bytes are not strict UTF-8, \<^verbatim>\<open>isValidUtf8\<close> accepts
  them, and the payload is handed to the application with the state left OPEN and no
  CLOSE frame sent.
\<close>

theorem overlong_text_delivered:
  "onDataReceived (client_instance\<lparr>state := OPEN\<rparr>)
       [0x81, 0x82, 0x37, 0xfa, 0x21, 0x3d, 0xf7, 0x7a]
     = (8, client_instance\<lparr>state := OPEN\<rparr>, [PacketEv [0xC0, 0x80]])
   \<and> isValidUtf8 [0xC0, 0x80] \<and> \<not> strict_utf8 [0xC0, 0x80]"
  by (simp add: ws_eval)

subsection \<open>Handshake in two reads\<close>





section \<open>Theorems: handshake accept token\<close>

lemma sample_pad:
  "sha1_pad (bytes_of ''dGhlIHNhbXBsZSBub25jZQ==258EAFA5-E914-47DA-95CA-C5AB0DC85B11'')
   = [100, 71, 104, 108, 73, 72, 78, 104, 98, 88, 66, 115, 90, 83, 66, 117, 98, 50, 53, 106,
     90, 81, 61, 61, 50, 53, 56, 69, 65, 70, 65, 53, 45, 69, 57, 49, 52, 45, 52, 55, 68,
     65, 45, 57, 53, 67, 65, 45, 67, 53, 65, 66, 48, 68, 67, 56, 53, 66, 49, 49, 128, 0, 0,
     0, 0, 0, 0, 0, 0, 0, 0, 0, 0, 0, 0, 0, 0, 0, 0, 0, 0, 0, 0, 0, 0, 0, 0, 0, 0, 0, 0, 0,
     0, 0, 0, 0, 0, 0, 0, 0, 0, 0, 0, 0, 0, 0, 0, 0, 0, 0, 0, 0, 0, 0, 0, 0, 0, 0, 0, 0, 0,
     0, 0, 0, 0, 0, 1, 224]"
proof -
  have zeros: "replicate 59 (0::byte) = [0, 0, 0, 0, 0, 0, 0, 0, 0, 0, 0, 0, 0, 0, 0, 0, 0, 0, 0, 0, 0, 0, 0, 0, 0, 0, 0, 0, 0,
     0, 0, 0, 0, 0, 0, 0, 0, 0, 0, 0, 0, 0, 0, 0, 0, 0, 0, 0, 0, 0, 0, 0, 0, 0, 0, 0, 0, 0,
     0]"
    by (simp add: numeral_eq_Suc)
  show ?thesis
    by (simp add: sha1_pad_def bytes_of_def zeros)
qed

lemma sample_words_1:
  "sha1_words
     [100, 71, 104, 108, 73, 72, 78, 104, 98, 88, 66, 115, 90, 83, 66, 117, 98, 50, 53,
       106, 90, 81, 61, 61, 50, 53, 56, 69, 65, 70, 65, 53, 45, 69, 57, 49, 52, 45, 52, 55,
       68, 65, 45, 57, 53, 67, 65, 45, 67, 53, 65, 66, 48, 68, 67, 56, 53, 66, 49, 49, 128,
       0, 0, 0]
   = [1682401388, 1229475432, 1649951347, 1515405941, 1647457642, 1515273533, 842348613,
     1095123253, 759511345, 875377719, 1145122105, 893600045, 1127563586, 809780024,
     893530417, 2147483648]"
  by (simp add: be32_def)

lemma sample_schedule_1:
  "sha1_schedule
     [1682401388, 1229475432, 1649951347, 1515405941, 1647457642, 1515273533, 842348613,
       1095123253, 759511345, 875377719, 1145122105, 893600045, 1127563586, 809780024,
       893530417, 2147483648]
   = [1682401388, 1229475432, 1649951347, 1515405941, 1647457642, 1515273533, 842348613,
     1095123253, 759511345, 875377719, 1145122105, 893600045, 1127563586, 809780024,
     893530417, 2147483648, 909942828, 619188790, 2287383617, 117128338, 1874115766,
     1175131875, 1502747054, 901747561, 845628814, 4163435780, 1966773927, 1664546322,
     3285607299, 116098809, 1941241154, 2768487864, 365801013, 1394499013, 1874245584,
     1813439660, 1306343101, 903047494, 3903753116, 1251162832, 3464898740, 1096661662,
     663941193, 2392553959, 2042897861, 1666430109, 10043928, 2325024465, 2942110617,
     4254630878, 517537771, 4027055912, 1113470580, 93729216, 2909551665, 2248896983,
     2277492040, 1046804781, 2366289761, 887221813, 181358856, 3266607578, 1821587210,
     4153629601, 3910963649, 3201394082, 1279150782, 1356423736, 3059252702, 439281382,
     758339734, 4081671435, 4077783581, 852382809, 1902502840, 2869297044, 3314851595,
     3168292426, 124912530, 4282382342]"
  by (simp add: sha1_schedule_def rotl32_def)

lemma sample_zip_1:
  "zip [0..<80]
     ([1682401388, 1229475432, 1649951347, 1515405941, 1647457642, 1515273533, 842348613,
       1095123253, 759511345, 875377719, 1145122105, 893600045, 1127563586, 809780024,
       893530417, 2147483648, 909942828, 619188790, 2287383617, 117128338, 1874115766,
       1175131875, 1502747054, 901747561, 845628814, 4163435780, 1966773927, 1664546322,
       3285607299, 116098809, 1941241154, 2768487864, 365801013, 1394499013, 1874245584,
       1813439660, 1306343101, 903047494, 3903753116, 1251162832, 3464898740, 1096661662,
       663941193, 2392553959, 2042897861, 1666430109, 10043928, 2325024465, 2942110617,
       4254630878, 517537771, 4027055912, 1113470580, 93729216, 2909551665, 2248896983,
       2277492040, 1046804781, 2366289761, 887221813, 181358856, 3266607578, 1821587210,
       4153629601, 3910963649, 3201394082, 1279150782, 1356423736, 3059252702, 439281382,
       758339734, 4081671435, 4077783581, 852382809, 1902502840, 2869297044, 3314851595,
       3168292426, 124912530, 4282382342] :: 32 word list)
   = [(0, 1682401388), (1, 1229475432), (2, 1649951347), (3, 1515405941), (4, 1647457642),
     (5, 1515273533), (6, 842348613), (7, 1095123253), (8, 759511345), (9, 875377719),
     (10, 1145122105), (11, 893600045), (12, 1127563586), (13, 809780024), (14, 893530417),
     (15, 2147483648), (16, 909942828), (17, 619188790), (18, 2287383617), (19, 117128338),
     (20, 1874115766), (21, 1175131875), (22, 1502747054), (23, 901747561),
     (24, 845628814), (25, 4163435780), (26, 1966773927), (27, 1664546322),
     (28, 3285607299), (29, 116098809), (30, 1941241154), (31, 2768487864),
     (32, 365801013), (33, 1394499013), (34, 1874245584), (35, 1813439660),
     (36, 1306343101), (37, 903047494), (38, 3903753116), (39, 1251162832),
     (40, 3464898740), (41, 1096661662), (42, 663941193), (43, 2392553959),
     (44, 2042897861), (45, 1666430109), (46, 10043928), (47, 2325024465),
     (48, 2942110617), (49, 4254630878), (50, 517537771), (51, 4027055912),
     (52, 1113470580), (53, 93729216), (54, 2909551665), (55, 2248896983),
     (56, 2277492040), (57, 1046804781), (58, 2366289761), (59, 887221813),
     (60, 181358856), (61, 3266607578), (62, 1821587210), (63, 4153629601),
     (64, 3910963649), (65, 3201394082), (66, 1279150782), (67, 1356423736),
     (68, 3059252702), (69, 439281382), (70, 758339734), (71, 4081671435),
     (72, 4077783581), (73, 852382809), (74, 1902502840), (75, 2869297044),
     (76, 3314851595), (77, 3168292426), (78, 124912530), (79, 4282382342)]"
  by (simp add: upt_conv_Cons)

lemma sample_rounds_1_0:
  "fold sha1_round
     [(0, 1682401388), (1, 1229475432), (2, 1649951347), (3, 1515405941), (4, 1647457642),
       (5, 1515273533), (6, 842348613), (7, 1095123253), (8, 759511345), (9, 875377719),
       (10, 1145122105), (11, 893600045), (12, 1127563586), (13, 809780024),
       (14, 893530417), (15, 2147483648), (16, 909942828), (17, 619188790),
       (18, 2287383617), (19, 117128338)]
     (1732584193, 4023233417, 2562383102, 271733878, 3285377520)
   = (152746364, 2378502326, 3752774234, 1979104605, 671166746)"
  by (simp add: sha1_f_def sha1_k_def rotl32_def)

lemma sample_rounds_1_20:
  "fold sha1_round
     [(20, 1874115766), (21, 1175131875), (22, 1502747054), (23, 901747561),
       (24, 845628814), (25, 4163435780), (26, 1966773927), (27, 1664546322),
       (28, 3285607299), (29, 116098809), (30, 1941241154), (31, 2768487864),
       (32, 365801013), (33, 1394499013), (34, 1874245584), (35, 1813439660),
       (36, 1306343101), (37, 903047494), (38, 3903753116), (39, 1251162832)]
     (152746364, 2378502326, 3752774234, 1979104605, 671166746)
   = (732088382, 3498479745, 438141449, 3543353481, 662299890)"
  by (simp add: sha1_f_def sha1_k_def rotl32_def)

lemma sample_rounds_1_40:
  "fold sha1_round
     [(40, 3464898740), (41, 1096661662), (42, 663941193), (43, 2392553959),
       (44, 2042897861), (45, 1666430109), (46, 10043928), (47, 2325024465),
       (48, 2942110617), (49, 4254630878), (50, 517537771), (51, 4027055912),
       (52, 1113470580), (53, 93729216), (54, 2909551665), (55, 2248896983),
       (56, 2277492040), (57, 1046804781), (58, 2366289761), (59, 887221813)]
     (732088382, 3498479745, 438141449, 3543353481, 662299890)
   = (1215486042, 3531927907, 2198413067, 465420221, 2676265148)"
  by (simp add: sha1_f_def sha1_k_def rotl32_def)

lemma sample_rounds_1_60:
  "fold sha1_round
     [(60, 181358856), (61, 3266607578), (62, 1821587210), (63, 4153629601),
       (64, 3910963649), (65, 3201394082), (66, 1279150782), (67, 1356423736),
       (68, 3059252702), (69, 439281382), (70, 758339734), (71, 4081671435),
       (72, 4077783581), (73, 852382809), (74, 1902502840), (75, 2869297044),
       (76, 3314851595), (77, 3168292426), (78, 124912530), (79, 4282382342)]
     (1215486042, 3531927907, 2198413067, 465420221, 2676265148)
   = (4102706214, 2203686369, 633413371, 1246086146, 2591277810)"
  by (simp add: sha1_f_def sha1_k_def rotl32_def)

lemma sample_block_1:
  "sha1_block (1732584193, 4023233417, 2562383102, 271733878, 3285377520)
     [100, 71, 104, 108, 73, 72, 78, 104, 98, 88, 66, 115, 90, 83, 66, 117, 98, 50, 53,
       106, 90, 81, 61, 61, 50, 53, 56, 69, 65, 70, 65, 53, 45, 69, 57, 49, 52, 45, 52, 55,
       68, 65, 45, 57, 53, 67, 65, 45, 67, 53, 65, 66, 48, 68, 67, 56, 53, 66, 49, 49, 128,
       0, 0, 0]
   = (1540323111, 1931952490, 3195796473, 1517820024, 1581688034)"
proof -
  have split:
    "[(0, 1682401388), (1, 1229475432), (2, 1649951347), (3, 1515405941), (4, 1647457642),
     (5, 1515273533), (6, 842348613), (7, 1095123253), (8, 759511345), (9, 875377719),
     (10, 1145122105), (11, 893600045), (12, 1127563586), (13, 809780024), (14, 893530417),
     (15, 2147483648), (16, 909942828), (17, 619188790), (18, 2287383617), (19, 117128338),
     (20, 1874115766), (21, 1175131875), (22, 1502747054), (23, 901747561),
     (24, 845628814), (25, 4163435780), (26, 1966773927), (27, 1664546322),
     (28, 3285607299), (29, 116098809), (30, 1941241154), (31, 2768487864),
     (32, 365801013), (33, 1394499013), (34, 1874245584), (35, 1813439660),
     (36, 1306343101), (37, 903047494), (38, 3903753116), (39, 1251162832),
     (40, 3464898740), (41, 1096661662), (42, 663941193), (43, 2392553959),
     (44, 2042897861), (45, 1666430109), (46, 10043928), (47, 2325024465),
     (48, 2942110617), (49, 4254630878), (50, 517537771), (51, 4027055912),
     (52, 1113470580), (53, 93729216), (54, 2909551665), (55, 2248896983),
     (56, 2277492040), (57, 1046804781), (58, 2366289761), (59, 887221813),
     (60, 181358856), (61, 3266607578), (62, 1821587210), (63, 4153629601),
     (64, 3910963649), (65, 3201394082), (66, 1279150782), (67, 1356423736),
     (68, 3059252702), (69, 439281382), (70, 758339734), (71, 4081671435),
     (72, 4077783581), (73, 852382809), (74, 1902502840), (75, 2869297044),
     (76, 3314851595), (77, 3168292426), (78, 124912530), (79, 4282382342)]
   = [(0, 1682401388), (1, 1229475432), (2, 1649951347), (3, 1515405941), (4, 1647457642),
       (5, 1515273533), (6, 842348613), (7, 1095123253), (8, 759511345), (9, 875377719),
       (10, 1145122105), (11, 893600045), (12, 1127563586), (13, 809780024),
       (14, 893530417), (15, 2147483648), (16, 909942828), (17, 619188790),
       (18, 2287383617), (19, 117128338)] @
     [(20, 1874115766), (21, 1175131875), (22, 1502747054), (23, 901747561),
       (24, 845628814), (25, 4163435780), (26, 1966773927), (27, 1664546322),
       (28, 3285607299), (29, 116098809), (30, 1941241154), (31, 2768487864),
       (32, 365801013), (33, 1394499013), (34, 1874245584), (35, 1813439660),
       (36, 1306343101), (37, 903047494), (38, 3903753116), (39, 1251162832)] @
     [(40, 3464898740), (41, 1096661662), (42, 663941193), (43, 2392553959),
       (44, 2042897861), (45, 1666430109), (46, 10043928), (47, 2325024465),
       (48, 2942110617), (49, 4254630878), (50, 517537771), (51, 4027055912),
       (52, 1113470580), (53, 93729216), (54, 2909551665), (55, 2248896983),
       (56, 2277492040), (57, 1046804781), (58, 2366289761), (59, 887221813)] @
     [(60, 181358856), (61, 3266607578), (62, 1821587210), (63, 4153629601),
       (64, 3910963649), (65, 3201394082), (66, 1279150782), (67, 1356423736),
       (68, 3059252702), (69, 439281382), (70, 758339734), (71, 4081671435),
       (72, 4077783581), (73, 852382809), (74, 1902502840), (75, 2869297044),
       (76, 3314851595), (77, 3168292426), (78, 124912530), (79, 4282382342)]"
    by simp
  show ?thesis
    unfolding sha1_block_def sample_words_1 sample_schedule_1 sample_zip_1 split
    by (simp only: fold_append o_apply sample_rounds_1_0 sample_rounds_1_20 sample_rounds_1_40 sample_rounds_1_60
          sha1_add.simps) simp
qed

lemma sample_words_2:
  "sha1_words
     [0, 0, 0, 0, 0, 0, 0, 0, 0, 0, 0, 0, 0, 0, 0, 0, 0, 0, 0, 0, 0, 0, 0, 0, 0, 0, 0, 0,
       0, 0, 0, 0, 0, 0, 0, 0, 0, 0, 0, 0, 0, 0, 0, 0, 0, 0, 0, 0, 0, 0, 0, 0, 0, 0, 0, 0,
       0, 0, 0, 0, 0, 0, 1, 224]
   = [0, 0, 0, 0, 0, 0, 0, 0, 0, 0, 0, 0, 0, 0, 0, 480]"
  by (simp add: be32_def)

lemma sample_schedule_2:
  "sha1_schedule
     [0, 0, 0, 0, 0, 0, 0, 0, 0, 0, 0, 0, 0, 0, 0, 480]
   = [0, 0, 0, 0, 0, 0, 0, 0, 0, 0, 0, 0, 0, 0, 0, 480, 0, 0, 960, 0, 0, 1920, 0, 960, 3840,
     0, 0, 7680, 0, 3264, 15360, 1088, 0, 30720, 3840, 13056, 61440, 3840, 0, 126720, 0,
     52224, 245760, 17280, 0, 495360, 65280, 206464, 983040, 61440, 13056, 2031360, 0,
     833536, 3932160, 264960, 61440, 7929600, 1044480, 3376896, 15728640, 1032960, 61440,
     32488192, 0, 13369344, 62976000, 4423680, 0, 126812160, 16711680, 52862464, 251658240,
     15790080, 3357696, 520062976, 0, 213420032, 1006694400, 67783168]"
  by (simp add: sha1_schedule_def rotl32_def)

lemma sample_zip_2:
  "zip [0..<80]
     ([0, 0, 0, 0, 0, 0, 0, 0, 0, 0, 0, 0, 0, 0, 0, 480, 0, 0, 960, 0, 0, 1920, 0, 960,
       3840, 0, 0, 7680, 0, 3264, 15360, 1088, 0, 30720, 3840, 13056, 61440, 3840, 0,
       126720, 0, 52224, 245760, 17280, 0, 495360, 65280, 206464, 983040, 61440, 13056,
       2031360, 0, 833536, 3932160, 264960, 61440, 7929600, 1044480, 3376896, 15728640,
       1032960, 61440, 32488192, 0, 13369344, 62976000, 4423680, 0, 126812160, 16711680,
       52862464, 251658240, 15790080, 3357696, 520062976, 0, 213420032, 1006694400, 67783168] :: 32 word list)
   = [(0, 0), (1, 0), (2, 0), (3, 0), (4, 0), (5, 0), (6, 0), (7, 0), (8, 0), (9, 0),
     (10, 0), (11, 0), (12, 0), (13, 0), (14, 0), (15, 480), (16, 0), (17, 0), (18, 960),
     (19, 0), (20, 0), (21, 1920), (22, 0), (23, 960), (24, 3840), (25, 0), (26, 0),
     (27, 7680), (28, 0), (29, 3264), (30, 15360), (31, 1088), (32, 0), (33, 30720),
     (34, 3840), (35, 13056), (36, 61440), (37, 3840), (38, 0), (39, 126720), (40, 0),
     (41, 52224), (42, 245760), (43, 17280), (44, 0), (45, 495360), (46, 65280),
     (47, 206464), (48, 983040), (49, 61440), (50, 13056), (51, 2031360), (52, 0),
     (53, 833536), (54, 3932160), (55, 264960), (56, 61440), (57, 7929600), (58, 1044480),
     (59, 3376896), (60, 15728640), (61, 1032960), (62, 61440), (63, 32488192), (64, 0),
     (65, 13369344), (66, 62976000), (67, 4423680), (68, 0), (69, 126812160),
     (70, 16711680), (71, 52862464), (72, 251658240), (73, 15790080), (74, 3357696),
     (75, 520062976), (76, 0), (77, 213420032), (78, 1006694400), (79, 67783168)]"
  by (simp add: upt_conv_Cons)

lemma sample_rounds_2_0:
  "fold sha1_round
     [(0, 0), (1, 0), (2, 0), (3, 0), (4, 0), (5, 0), (6, 0), (7, 0), (8, 0), (9, 0),
       (10, 0), (11, 0), (12, 0), (13, 0), (14, 0), (15, 480), (16, 0), (17, 0), (18, 960),
       (19, 0)]
     (1540323111, 1931952490, 3195796473, 1517820024, 1581688034)
   = (704678737, 790182409, 2626053057, 2394280195, 639335578)"
  by (simp add: sha1_f_def sha1_k_def rotl32_def)

lemma sample_rounds_2_20:
  "fold sha1_round
     [(20, 0), (21, 1920), (22, 0), (23, 960), (24, 3840), (25, 0), (26, 0), (27, 7680),
       (28, 0), (29, 3264), (30, 15360), (31, 1088), (32, 0), (33, 30720), (34, 3840),
       (35, 13056), (36, 61440), (37, 3840), (38, 0), (39, 126720)]
     (704678737, 790182409, 2626053057, 2394280195, 639335578)
   = (1869188890, 3338603731, 3730487228, 1601125563, 497322629)"
  by (simp add: sha1_f_def sha1_k_def rotl32_def)

lemma sample_rounds_2_40:
  "fold sha1_round
     [(40, 0), (41, 52224), (42, 245760), (43, 17280), (44, 0), (45, 495360), (46, 65280),
       (47, 206464), (48, 983040), (49, 61440), (50, 13056), (51, 2031360), (52, 0),
       (53, 833536), (54, 3932160), (55, 264960), (56, 61440), (57, 7929600),
       (58, 1044480), (59, 3376896)]
     (1869188890, 3338603731, 3730487228, 1601125563, 497322629)
   = (1443995417, 140423934, 1212818885, 3242250216, 1752014928)"
  by (simp add: sha1_f_def sha1_k_def rotl32_def)

lemma sample_rounds_2_60:
  "fold sha1_round
     [(60, 15728640), (61, 1032960), (62, 61440), (63, 32488192), (64, 0), (65, 13369344),
       (66, 62976000), (67, 4423680), (68, 0), (69, 126812160), (70, 16711680),
       (71, 52862464), (72, 251658240), (73, 15790080), (74, 3357696), (75, 520062976),
       (76, 0), (77, 213420032), (78, 1006694400), (79, 67783168)]
     (1443995417, 140423934, 1212818885, 3242250216, 1752014928)
   = (1470814213, 1295715756, 3531229709, 1958756557, 1417158664)"
  by (simp add: sha1_f_def sha1_k_def rotl32_def)

lemma sample_block_2:
  "sha1_block (1540323111, 1931952490, 3195796473, 1517820024, 1581688034)
     [0, 0, 0, 0, 0, 0, 0, 0, 0, 0, 0, 0, 0, 0, 0, 0, 0, 0, 0, 0, 0, 0, 0, 0, 0, 0, 0, 0,
       0, 0, 0, 0, 0, 0, 0, 0, 0, 0, 0, 0, 0, 0, 0, 0, 0, 0, 0, 0, 0, 0, 0, 0, 0, 0, 0, 0,
       0, 0, 0, 0, 0, 0, 1, 224]
   = (3011137324, 3227668246, 2432058886, 3476576581, 2998846698)"
proof -
  have split:
    "[(0, 0), (1, 0), (2, 0), (3, 0), (4, 0), (5, 0), (6, 0), (7, 0), (8, 0), (9, 0),
     (10, 0), (11, 0), (12, 0), (13, 0), (14, 0), (15, 480), (16, 0), (17, 0), (18, 960),
     (19, 0), (20, 0), (21, 1920), (22, 0), (23, 960), (24, 3840), (25, 0), (26, 0),
     (27, 7680), (28, 0), (29, 3264), (30, 15360), (31, 1088), (32, 0), (33, 30720),
     (34, 3840), (35, 13056), (36, 61440), (37, 3840), (38, 0), (39, 126720), (40, 0),
     (41, 52224), (42, 245760), (43, 17280), (44, 0), (45, 495360), (46, 65280),
     (47, 206464), (48, 983040), (49, 61440), (50, 13056), (51, 2031360), (52, 0),
     (53, 833536), (54, 3932160), (55, 264960), (56, 61440), (57, 7929600), (58, 1044480),
     (59, 3376896), (60, 15728640), (61, 1032960), (62, 61440), (63, 32488192), (64, 0),
     (65, 13369344), (66, 62976000), (67, 4423680), (68, 0), (69, 126812160),
     (70, 16711680), (71, 52862464), (72, 251658240), (73, 15790080), (74, 3357696),
     (75, 520062976), (76, 0), (77, 213420032), (78, 1006694400), (79, 67783168)]
   = [(0, 0), (1, 0), (2, 0), (3, 0), (4, 0), (5, 0), (6, 0), (7, 0), (8, 0), (9, 0),
       (10, 0), (11, 0), (12, 0), (13, 0), (14, 0), (15, 480), (16, 0), (17, 0), (18, 960),
       (19, 0)] @
     [(20, 0), (21, 1920), (22, 0), (23, 960), (24, 3840), (25, 0), (26, 0), (27, 7680),
       (28, 0), (29, 3264), (30, 15360), (31, 1088), (32, 0), (33, 30720), (34, 3840),
       (35, 13056), (36, 61440), (37, 3840), (38, 0), (39, 126720)] @
     [(40, 0), (41, 52224), (42, 245760), (43, 17280), (44, 0), (45, 495360), (46, 65280),
       (47, 206464), (48, 983040), (49, 61440), (50, 13056), (51, 2031360), (52, 0),
       (53, 833536), (54, 3932160), (55, 264960), (56, 61440), (57, 7929600),
       (58, 1044480), (59, 3376896)] @
     [(60, 15728640), (61, 1032960), (62, 61440), (63, 32488192), (64, 0), (65, 13369344),
       (66, 62976000), (67, 4423680), (68, 0), (69, 126812160), (70, 16711680),
       (71, 52862464), (72, 251658240), (73, 15790080), (74, 3357696), (75, 520062976),
       (76, 0), (77, 213420032), (78, 1006694400), (79, 67783168)]"
    by simp
  show ?thesis
    unfolding sha1_block_def sample_words_2 sample_schedule_2 sample_zip_2 split
    by (simp only: fold_append o_apply sample_rounds_2_0 sample_rounds_2_20 sample_rounds_2_40 sample_rounds_2_60
          sha1_add.simps) simp
qed

lemma sample_blocks:
  "sha1_blocks sha1_init
     [100, 71, 104, 108, 73, 72, 78, 104, 98, 88, 66, 115, 90, 83, 66, 117, 98, 50, 53,
       106, 90, 81, 61, 61, 50, 53, 56, 69, 65, 70, 65, 53, 45, 69, 57, 49, 52, 45, 52, 55,
       68, 65, 45, 57, 53, 67, 65, 45, 67, 53, 65, 66, 48, 68, 67, 56, 53, 66, 49, 49, 128,
       0, 0, 0, 0, 0, 0, 0, 0, 0, 0, 0, 0, 0, 0, 0, 0, 0, 0, 0, 0, 0, 0, 0, 0, 0, 0, 0, 0,
       0, 0, 0, 0, 0, 0, 0, 0, 0, 0, 0, 0, 0, 0, 0, 0, 0, 0, 0, 0, 0, 0, 0, 0, 0, 0, 0, 0,
       0, 0, 0, 0, 0, 0, 0, 0, 0, 1, 224]
   = (3011137324, 3227668246, 2432058886, 3476576581, 2998846698)"
  apply (subst sha1_blocks.simps)
  apply (simp add: sha1_init_def sample_block_1)
  apply (subst sha1_blocks.simps)
  apply (simp add: sample_block_2)
  apply (subst sha1_blocks.simps)
  apply simp
  done

lemma sample_digest:
  "SHA1 (bytes_of ''dGhlIHNhbXBsZSBub25jZQ==258EAFA5-E914-47DA-95CA-C5AB0DC85B11'')
   = [179, 122, 79, 44, 192, 98, 79, 22, 144, 246, 70, 6, 207, 56, 89, 69, 178, 190, 196, 234]"
  by (simp add: SHA1_def sample_pad sample_blocks word_bytes_def)

lemma sample_base64:
  "base64_encode
     [179, 122, 79, 44, 192, 98, 79, 22, 144, 246, 70, 6, 207, 56, 89, 69, 178, 190, 196,
       234]
   = ''s3pPLMBiTxaQ9kYGzzhZRbK+xOo=''"
  by (simp add: b64_def base64_chars_def)

lemma sample_accept_key:
  "calculateHandshakeKey ''dGhlIHNhbXBsZSBub25jZQ=='' = ''s3pPLMBiTxaQ9kYGzzhZRbK+xOo=''"
proof -
  have "''dGhlIHNhbXBsZSBub25jZQ=='' @ WEBSOCKET_GUID
        = ''dGhlIHNhbXBsZSBub25jZQ==258EAFA5-E914-47DA-95CA-C5AB0DC85B11''"
    by (simp add: WEBSOCKET_GUID_def)
  then show ?thesis
    by (simp only: calculateHandshakeKey_def Let_def sample_digest sample_base64)
qed

text \<open>
  Claim C8. For every client key \<open>k\<close> the accept token is the Base64 encoding of the
  SHA-1 digest of \<open>k\<close> followed by the GUID 258EAFA5-E914-47DA-95CA-C5AB0DC85B11, and
  for the client key dGhlIHNhbXBsZSBub25jZQ== it is s3pPLMBiTxaQ9kYGzzhZRbK+xOo=.
\<close>

theorem accept_token:
  "calculateHandshakeKey k
     = base64_encode (SHA1 (bytes_of (k @ ''258EAFA5-E914-47DA-95CA-C5AB0DC85B11'')))
   \<and> calculateHandshakeKey ''dGhlIHNhbXBsZSBub25jZQ=='' = ''s3pPLMBiTxaQ9kYGzzhZRbK+xOo=''"
  using sample_accept_key by (simp add: calculateHandshakeKey_def WEBSOCKET_GUID_def)

text \<open>
  The sample request in a single read completes the handshake: the response carries
  the accept token and the state is OPEN.
\<close>

lemma whole_handshake_completes:
  "onDataReceived client_instance (bytes_of (sample_request_part1 @ sample_request_part2))
     = (154, client_instance\<lparr>state := OPEN\<rparr>,
        [RawFrameEv (bytes_of
           (''HTTP/1.1 101 Switching Protocols'' @ crlf
            @ ''Upgrade: websocket'' @ crlf
            @ ''Connection: Upgrade'' @ crlf
            @ ''Sec-WebSocket-Accept: s3pPLMBiTxaQ9kYGzzhZRbK+xOo='' @ crlf
            @ crlf))])"
  by (simp add: onDataReceived_def hs_eval client_instance_def WebSocketProtocol_new_def
        trim_def is_space_def generateHandshakeResponse_def sample_accept_key)

section \<open>Theorems: RESP decoding\<close>

lemma digit_char_props:
  assumes "d < 10"
  shows "isdigit (digit_char d)" and "digit_value (digit_char d) = d"
    and "digit_char d \<noteq> CR" and "\<not> isspace (digit_char d)"
    and "digit_char d \<noteq> CHR ''-''" and "digit_char d \<noteq> CHR ''+''"
proof -
  from assms have "d \<in> {0, 1, 2, 3, 4, 5, 6, 7, 8, 9}"
    by auto
  then show "isdigit (digit_char d)" and "digit_value (digit_char d) = d"
    and "digit_char d \<noteq> CR" and "\<not> isspace (digit_char d)"
    and "digit_char d \<noteq> CHR ''-''" and "digit_char d \<noteq> CHR ''+''"
    by (auto simp: digit_char_def isdigit_def digit_value_def CR_def isspace_def)
qed

lemma to_string_nonempty: "to_string n \<noteq> []"
  by (subst to_string.simps) simp

lemma to_string_digits: "c \<in> set (to_string n) \<Longrightarrow> isdigit c \<and> c \<noteq> CR"
proof (induction n arbitrary: c rule: to_string.induct)
  case (1 n)
  show ?case
  proof (cases "n < 10")
    case True
    with "1.prems" show ?thesis
      by (subst (asm) to_string.simps) (simp add: digit_char_props)
  next
    case False
    with "1.prems" have "c \<in> set (to_string (n div 10)) \<or> c = digit_char (n mod 10)"
      by (subst (asm) to_string.simps) auto
    with False "1.IH" show ?thesis
      by (auto simp: digit_char_props)
  qed
qed

lemma hd_to_string: "isdigit (hd (to_string n))"
  using to_string_digits [of "hd (to_string n)" n] to_string_nonempty [of n]
  by simp

lemma digits_value_snoc: "digits_value (ds @ [c]) = 10 * digits_value ds + digit_value c"
  by (simp add: digits_value_def)

lemma digits_value_to_string: "digits_value (to_string n) = n"
proof (induction n rule: to_string.induct)
  case (1 n)
  show ?case
  proof (cases "n < 10")
    case True
    then show ?thesis
      by (subst to_string.simps) (simp add: digits_value_def digit_char_props)
  next
    case False
    with "1.IH" show ?thesis
      by (subst to_string.simps) (simp add: digits_value_snoc digit_char_props)
  qed
qed

lemma isdigit_not_space: "isdigit c \<Longrightarrow> \<not> isspace c \<and> c \<noteq> CHR ''-'' \<and> c \<noteq> CHR ''+''"
  by (auto simp: isdigit_def isspace_def)

lemma stoll_to_string:
  assumes "n < 2 ^ 63"
  shows "stoll (to_string n) = Inr (int n)"
proof -
  let ?s = "to_string n"
  have ne: "?s \<noteq> []"
    by (rule to_string_nonempty)
  from hd_to_string [of n] have h: "\<not> isspace (hd ?s)" "hd ?s \<noteq> CHR ''-''" "hd ?s \<noteq> CHR ''+''"
    by (auto dest: isdigit_not_space)
  from ne h(1) have d: "dropWhile isspace ?s = ?s"
    by (cases ?s) auto
  have t: "takeWhile isdigit ?s = ?s"
    by (rule takeWhile_eq_all_conv [THEN iffD2]) (simp add: to_string_digits)
  from assms have r: "\<not> (int n < - (2 ^ 63) \<or> 2 ^ 63 - 1 < int n)"
    by (simp add: of_nat_less_iff [of n "2 ^ 63", where ?'a = int, simplified] not_less)
  show ?thesis
    using ne h r by (simp add: stoll_def d t Let_def digits_value_to_string)
qed

lemma starts_with_crlf [simp]: "starts_with crlf (CR # LF # r)"
  by (simp add: crlf_def)

lemma starts_with_crlf_not: "c \<noteq> CR \<Longrightarrow> \<not> starts_with crlf (c # r)"
  by (auto simp: crlf_def)

lemma find_from_crlf:
  assumes "CR \<notin> set ds"
  shows "find_from crlf (ds @ crlf @ rest) i = Some (i + length ds)"
  using assms
proof (induction ds arbitrary: i)
  case Nil
  then show ?case by (simp add: crlf_def)
next
  case (Cons c ds)
  then have "c \<noteq> CR" by auto
  then have "\<not> starts_with crlf ((c # ds) @ crlf @ rest)"
    by (simp add: starts_with_crlf_not)
  with Cons show ?case
    by simp
qed

lemma string_find_crlf:
  assumes "CR \<notin> set ds"
  shows "string_find (pre @ ds @ crlf @ rest) crlf (length pre) = Some (length pre + length ds)"
  using find_from_crlf [OF assms] by (simp add: string_find_def)

lemma substr_mid: "substr (pre @ mid @ rest) (length pre) (length mid) = mid"
  by (simp add: substr_def)

lemma to_string_no_CR: "CR \<notin> set (to_string n)"
  using to_string_digits by blast

lemma length_formatBulkString:
  "length (formatBulkString x) = length (to_string (length x)) + length x + 5"
  by (simp add: formatBulkString_def crlf_def)

lemma size_add_small:
  assumes "pos + k < 2 ^ 64"
  shows "size_add pos (int k) = pos + k"
proof -
  have "(int pos + int k) mod 2 ^ 64 = int ((pos + k) mod 2 ^ 64)"
    by (simp add: zmod_int)
  also have "\<dots> = int (pos + k)"
    using assms by simp
  finally show ?thesis
    by (simp add: size_add_def)
qed

lemma to_size_small:
  assumes "k < 2 ^ 64"
  shows "to_size (int k) = k"
proof -
  have "int k mod 2 ^ 64 = int (k mod 2 ^ 64)"
    by (simp add: zmod_int)
  also have "\<dots> = int k"
    using assms by simp
  finally show ?thesis
    by (simp add: to_size_def)
qed

lemma pow63_64: "(n::nat) < 2 ^ 63 \<Longrightarrow> n < 2 ^ 64"
  by simp

lemma decode_items_encoded:
  assumes "length (pre @ concat (map formatBulkString xs)) < 2 ^ 63"
  shows "decode_items (pre @ concat (map formatBulkString xs)) (length xs) (length pre) out
         = Inr (True, out @ xs, length (pre @ concat (map formatBulkString xs)))"
  using assms
proof (induction xs arbitrary: pre out)
  case Nil
  then show ?case by simp
next
  case (Cons x xs)
  define rest where "rest = concat (map formatBulkString xs)"
  define ts where "ts = to_string (length x)"
  define buf where "buf = pre @ concat (map formatBulkString (x # xs))"
  define pos where "pos = length pre"
  define le where "le = pos + 1 + length ts"
  define npos where "npos = le + 2 + length x + 2"
  have buf1: "buf = (pre @ ''$'') @ ts @ crlf @ (x @ crlf @ rest)"
    by (simp add: buf_def formatBulkString_def ts_def rest_def)
  have buf2: "buf = (pre @ ''$'' @ ts @ crlf) @ x @ (crlf @ rest)"
    by (simp add: buf_def formatBulkString_def ts_def rest_def)
  have buf3: "buf = (pre @ formatBulkString x) @ rest"
    by (simp add: buf_def rest_def)
  have tsne: "0 < length ts"
    using to_string_nonempty [of "length x"] by (simp add: ts_def)
  have len: "length buf = pos + length ts + length x + 5 + length rest"
    by (simp add: buf3 length_formatBulkString pos_def ts_def)
  from Cons.prems have small: "length buf < 2 ^ 63"
    by (simp add: buf_def)
  have "length x \<le> length buf"
    using len by linarith
  from this small have lx: "length x < 2 ^ 63"
    by (rule le_less_trans)
  have c1: "\<not> length buf \<le> pos + 1"
    using len tsne by linarith
  have c2: "buf ! pos = CHR ''$''"
    by (simp add: buf1 pos_def nth_append)
  have "string_find buf crlf (length (pre @ ''$'')) = Some (length (pre @ ''$'') + length ts)"
    unfolding ts_def by (subst buf1 [unfolded ts_def]) (rule string_find_crlf [OF to_string_no_CR])
  then have f: "string_find buf crlf (pos + 1) = Some le"
    by (simp add: pos_def le_def)
  have "substr buf (length (pre @ ''$'')) (length ts) = ts"
    by (subst buf1) (rule substr_mid)
  then have s1: "substr buf (pos + 1) (le - pos - 1) = ts"
    by (simp add: pos_def le_def)
  have st: "stoll ts = Inr (int (length x))"
    unfolding ts_def by (rule stoll_to_string [OF lx])
  have "npos \<le> length buf"
    using len by (simp add: npos_def le_def)
  then have c3: "\<not> length buf < npos"
    by simp
  from \<open>npos \<le> length buf\<close> small have "npos < 2 ^ 63"
    by (rule le_less_trans)
  then have "le + 2 + (length x + 2) < 2 ^ 64"
    by (simp add: npos_def add.assoc)
  then have "size_add (le + 2) (int (length x + 2)) = le + 2 + (length x + 2)"
    by (rule size_add_small)
  moreover have "int (length x + 2) = int (length x) + 2"
    by simp
  ultimately have sa: "size_add (le + 2) (int (length x) + 2) = npos"
    by (simp only: npos_def add.assoc)
  have tz: "to_size (int (length x)) = length x"
    by (rule to_size_small [OF pow63_64 [OF lx]])
  have "substr buf (length (pre @ ''$'' @ ts @ crlf)) (length x) = x"
    by (subst buf2) (rule substr_mid)
  moreover have "length (pre @ ''$'' @ ts @ crlf) = le + 2"
    by (simp add: le_def pos_def crlf_def)
  ultimately have s2: "substr buf (le + 2) (length x) = x"
    by simp
  have np: "npos = length (pre @ formatBulkString x)"
    by (simp add: npos_def le_def pos_def length_formatBulkString ts_def)
  from Cons.prems have "length ((pre @ formatBulkString x) @ concat (map formatBulkString xs)) < 2 ^ 63"
    by simp
  from Cons.IH [OF this, of "out @ [x]"]
  have ih: "decode_items buf (length xs) npos (out @ [x]) = Inr (True, out @ x # xs, length buf)"
    by (simp add: buf3 rest_def np)
  have "decode_items buf (Suc (length xs)) pos out = Inr (True, out @ x # xs, length buf)"
    by (simp only: decode_items.simps c1 c2 f s1 st sa c3 tz s2 ih Let_def option.case
          sum.case if_False if_True simp_thms)
  then show ?case
    by (simp add: buf_def pos_def)
qed

lemma length_items_ge: "length xs \<le> length (concat (map formatBulkString xs))"
  by (induction xs) (simp_all add: length_formatBulkString)

text \<open>
  Claim C9. For every list of byte strings whose encoding fits the address space (fewer
  than \<open>2 ^ 63\<close> bytes), decoding the array encoding of the list succeeds, yields the
  same list and consumes exactly the encoded bytes. The list may have any length, three
  elements included, and the strings may hold any bytes, CR, LF and NUL included.
\<close>

theorem resp_roundtrip:
  assumes "length (formatArray xs) < 2 ^ 63"
  shows "resp_decode (formatArray xs) = Inr (True, xs, length (formatArray xs))"
proof -
  define n where "n = to_string (length xs)"
  define items where "items = concat (map formatBulkString xs)"
  define buf where "buf = formatArray xs"
  define le where "le = 1 + length n"
  have buf1: "buf = ''*'' @ n @ crlf @ items"
    by (simp add: buf_def formatArray_def n_def items_def)
  have buf2: "buf = (''*'' @ n @ crlf) @ items"
    by (simp add: buf1)
  have ne: "buf \<noteq> []" and star: "buf ! 0 = CHR ''*''"
    by (simp_all add: buf1)
  have "string_find buf crlf (length ''*'') = Some (length ''*'' + length n)"
    unfolding n_def by (subst buf1 [unfolded n_def]) (rule string_find_crlf [OF to_string_no_CR])
  then have f: "string_find buf crlf 1 = Some le"
    by (simp add: le_def)
  have "substr buf (length ''*'') (length n) = n"
    by (subst buf1) (rule substr_mid)
  then have s: "substr buf 1 (le - 1) = n"
    by (simp add: le_def)
  have "length xs \<le> length buf"
    using length_items_ge [of xs] by (simp add: buf1 items_def)
  from this assms have "length xs < 2 ^ 63"
    unfolding buf_def by (rule le_less_trans)
  then have st: "stoll n = Inr (int (length xs))"
    unfolding n_def by (rule stoll_to_string)
  have pos: "length (''*'' @ n @ crlf) = le + 2"
    by (simp add: le_def crlf_def)
  from assms have "length ((''*'' @ n @ crlf) @ concat (map formatBulkString xs)) < 2 ^ 63"
    by (simp add: formatArray_def n_def)
  from decode_items_encoded [OF this, of "[]"]
  have d: "decode_items buf (nat (int (length xs))) (le + 2) [] = Inr (True, xs, length buf)"
    by (simp add: buf2 items_def le_def crlf_def)
  have "resp_decode buf = Inr (True, xs, length buf)"
    using ne star
    by (simp only: resp_decode_def f s st d option.case sum.case if_False simp_thms)
  then show ?thesis
    by (simp add: buf_def)
qed

lemmas resp_eval =
  resp_decode_def string_find_def crlf_def CR_def LF_def stoll_def isspace_def isdigit_def
  digit_value_def digits_value_def substr_def size_add_def to_size_def Let_def

lemma decode_items_numeral:
  "decode_items buf (numeral k) pos out = decode_items buf (Suc (pred_numeral k)) pos out"
  by (simp only: numeral_eq_Suc)

theorem resp_roundtrip_witness:
  "length (formatArray [''a'', ''bc'', [CHR 0x00, CR, LF]]) < 2 ^ 63
   \<and> resp_decode (formatArray [''a'', ''bc'', [CHR 0x00, CR, LF]])
       = Inr (True, [''a'', ''bc'', [CHR 0x00, CR, LF]],
              length (formatArray [''a'', ''bc'', [CHR 0x00, CR, LF]]))"
proof -
  have "length (formatArray [''a'', ''bc'', [CHR 0x00, CR, LF]]) = 28"
    by (simp add: formatArray_def formatBulkString_def to_string.simps crlf_def)
  then have h: "length (formatArray [''a'', ''bc'', [CHR 0x00, CR, LF]]) < 2 ^ 63"
    by simp
  from resp_roundtrip [OF h] h show ?thesis
    by blast
qed

lemma decode_items_False:
  "decode_items buf n pos out = Inr (False, args, consumed) \<Longrightarrow> args = [] \<and> consumed = 0"
  by (induction n arbitrary: pos out)
     (auto simp: Let_def split: if_splits option.splits sum.splits)

lemma resp_decode_False:
  "resp_decode buf = Inr (False, args, consumed) \<Longrightarrow> args = [] \<and> consumed = 0"
  by (auto simp: resp_decode_def split: if_splits option.splits sum.splits
           dest: decode_items_False)

text \<open>
  The one result of \<^verbatim>\<open>resp_decode\<close> that is not a success, \<^verbatim>\<open>{false, {}}\<close>, is
  read by \<^verbatim>\<open>onClientDataReceived\<close> as a request that is not complete yet: 0 bytes are
  reported as processed, no reply is sent, the store is left as it is and the (filtered)
  bytes stay in the client's buffer.
\<close>

lemma decode_false_waits:
  assumes "resp_decode (cleaned (m_clientBuffers p clientFd @ d)) = Inr (False, args, consumed)"
  shows "args = [] \<and> consumed = 0
       \<and> onClientDataReceived p clientFd d
         = Some (Inr (0,
                      p\<lparr>m_clientBuffers :=
                          (m_clientBuffers p)
                            (clientFd := cleaned (m_clientBuffers p clientFd @ d))\<rparr>,
                      []))"
proof -
  from resp_decode_False [OF assms] have a: "args = []" "consumed = 0"
    by auto
  have "drain clientFd (m_stringData p) (cleaned (m_clientBuffers p clientFd @ d)) 0 []
        = Some (Inr (m_stringData p, cleaned (m_clientBuffers p clientFd @ d), 0, []))"
    by (subst drain.simps) (simp add: assms)
  then show ?thesis
    using a by (simp add: onClientDataReceived_def)
qed

text \<open>
  A request whose bulk length is \<open>-1\<close>: the decoder reports success, with the rest of
  the buffer as the argument, and the command is executed.
\<close>

lemma negative_length_decodes:
  "resp_decode sample_negative_length = Inr (True, [''X''], 10)
   \<and> onClientDataReceived sample_redis 5 sample_negative_length
     = Some (Inr (10, sample_redis,
                  [(5, ''-ERR unknown command '' @ [quote] @ ''X'' @ [quote] @ crlf)]))"
proof -
  let ?reply = "''-ERR unknown command '' @ [quote] @ ''X'' @ [quote] @ crlf"
  have d: "resp_decode sample_negative_length = Inr (True, [''X''], 10)"
    by (simp add: sample_negative_length_def resp_eval)
  have c: "cleaned sample_negative_length = sample_negative_length"
    by (simp add: sample_negative_length_def cleaned_def filterNullBytes_def
          HEARTBEAT_MAGIC_def crlf_def CR_def LF_def)
  have e: "executeRedisCommand [] [''X''] = (?reply, [])"
    by (simp add: executeRedisCommand_def toupper_def formatError_def)
  have s: "sendDirectResponse 5 ?reply = [(5, ?reply)]"
    by (simp add: sendDirectResponse_def)
  have r: "drop 10 sample_negative_length = []"
    by (simp add: sample_negative_length_def crlf_def)
  have n: "resp_decode [] = Inr (False, [], 0)"
    by (simp add: resp_decode_def)
  have step2: "drain 5 [] [] 10 [(5, ?reply)] = Some (Inr ([], [], 10, [(5, ?reply)]))"
    by (subst drain.simps) (simp add: n)
  have "drain 5 [] sample_negative_length 0 [] = drain 5 [] [] 10 [(5, ?reply)]"
    by (subst drain.simps) (simp only: d e s r sum.case prod.case if_True if_False simp_thms
          list.distinct append_Nil add_0)
  with step2 have "drain 5 [] sample_negative_length 0 []
                   = Some (Inr ([], [], 10, [(5, ?reply)]))"
    by simp
  then have "onClientDataReceived sample_redis 5 sample_negative_length
     = Some (Inr (10, sample_redis, [(5, ?reply)]))"
    by (simp add: onClientDataReceived_def sample_redis_def c fun_upd_idem_iff)
  with d show ?thesis
    by blast
qed

lemma decode_false_waits_sample:
  "resp_decode (cleaned (m_clientBuffers sample_redis 5 @ (''*1'' @ crlf @ ''$-100'' @ crlf @ ''k'')))
     = Inr (False, [], 0)
   \<and> onClientDataReceived sample_redis 5 (''*1'' @ crlf @ ''$-100'' @ crlf @ ''k'')
     = Some (Inr (0,
                  sample_redis\<lparr>m_clientBuffers :=
                      (m_clientBuffers sample_redis)
                        (5 := cleaned (m_clientBuffers sample_redis 5
                                       @ (''*1'' @ crlf @ ''$-100'' @ crlf @ ''k'')))\<rparr>,
                  []))"
proof -
  have c: "cleaned (m_clientBuffers sample_redis 5 @ (''*1'' @ crlf @ ''$-100'' @ crlf @ ''k''))
           = ''*1'' @ crlf @ ''$-100'' @ crlf @ ''k''"
    by (simp add: cleaned_def filterNullBytes_def HEARTBEAT_MAGIC_def crlf_def CR_def LF_def
          sample_redis_def)
  have h: "resp_decode (cleaned (m_clientBuffers sample_redis 5
                                 @ (''*1'' @ crlf @ ''$-100'' @ crlf @ ''k'')))
           = Inr (False, [], 0)"
    unfolding c by (simp add: resp_eval)
  from decode_false_waits [OF h] h show ?thesis
    by blast
qed

section \<open>Theorems: RESP commands\<close>




lemma set_get_roundtrip:
  "executeRedisCommand [] [''SET'', ''k'', ''v''] = (''+OK'' @ crlf, [(''k'', ''v'')])
   \<and> executeRedisCommand [(''k'', ''v'')] [''get'', ''k''] = (''$1'' @ crlf @ ''v'' @ crlf, [(''k'', ''v'')])"
  by (simp add: executeRedisCommand_def toupper_def formatSimpleString_def store_set_def
        formatBulkString_def to_string.simps digit_char_def)

lemma nondecimal_count_throws: "resp_decode (''*x'' @ crlf) = Inl invalid_argument"
  by (simp add: resp_eval)

lemma negative_count_decodes: "resp_decode (''*-1'' @ crlf) = Inr (True, [], 5)"
  by (simp add: resp_eval)

lemma decimal_prefix_accepted:
  "resp_decode (''*1x'' @ crlf @ ''$4'' @ crlf @ ''PING'' @ crlf) = Inr (True, [''PING''], 15)"
  by (simp add: resp_eval)

subsection \<open>A request that is never consumed\<close>

text \<open>
  With the bulk length \<open>-12\<close> the bound check \<^verbatim>\<open>pos + len + 2 > buf.size()\<close> wraps to
  \<open>0 > 10\<close>, the element is the empty string, and \<^verbatim>\<open>pos += len + 2\<close> brings the position
  back to 0: the decoder reports success with nothing consumed. The loop of
  \<^verbatim>\<open>onClientDataReceived\<close> then answers the same request again and again and never
  returns.
\<close>

lemma stuck_decodes: "resp_decode sample_stuck = Inr (True, [''''], 0)"
  by (simp add: sample_stuck_def resp_eval)

lemma stuck_command:
  "executeRedisCommand st ['''']
   = (formatError (''ERR unknown command '' @ [quote] @ [quote]), st)"
  by (simp add: executeRedisCommand_def)

lemma drain_never_returns:
  "drain clientFd st sample_stuck totalProcessed sent \<noteq> Some r"
proof
  assume a: "drain clientFd st sample_stuck totalProcessed sent = Some r"
  have "sample_stuck = sample_stuck \<longrightarrow> False"
  proof (rule drain.raw_induct
           [where P = "\<lambda>fd st buf total sent r. buf = sample_stuck \<longrightarrow> False", OF _ a])
    fix f :: "int \<Rightarrow> store \<Rightarrow> string \<Rightarrow> nat \<Rightarrow> (int \<times> string) list
              \<Rightarrow> (exn + (store \<times> string \<times> nat \<times> (int \<times> string) list)) option"
      and fd st buf total sent y
    assume ih: "\<And>fd st buf total sent y.
                  f fd st buf total sent = Some y \<Longrightarrow> buf = sample_stuck \<longrightarrow> False"
      and step: "(case resp_decode buf of
                    Inl e \<Rightarrow> Some (Inl e)
                  | Inr (success, args, consumed) \<Rightarrow>
                      if \<not> success then Some (Inr (st, buf, total, sent))
                      else if args \<noteq> [] then
                        (case executeRedisCommand st args of
                           (response, st') \<Rightarrow>
                             f fd st' (drop consumed buf) (total + consumed)
                               (sent @ sendDirectResponse fd response))
                      else f fd st (drop consumed buf) (total + consumed) sent) = Some y"
    show "buf = sample_stuck \<longrightarrow> False"
    proof
      assume "buf = sample_stuck"
      with step
      have "f fd st sample_stuck total
              (sent @ sendDirectResponse fd
                        (formatError (''ERR unknown command '' @ [quote] @ [quote]))) = Some y"
        by (simp add: stuck_decodes stuck_command)
      from ih [OF this] show False
        by simp
    qed
  qed
  then show False
    by simp
qed

lemma stuck_request_never_answered:
  "onClientDataReceived sample_redis 5 sample_stuck = None"
proof -
  have c: "cleaned (m_clientBuffers sample_redis 5 @ sample_stuck) = sample_stuck"
    by (simp add: sample_stuck_def cleaned_def filterNullBytes_def HEARTBEAT_MAGIC_def
          crlf_def CR_def LF_def sample_redis_def)
  have "drain 5 (m_stringData sample_redis) sample_stuck 0 [] = None"
    using drain_never_returns [of 5 "m_stringData sample_redis" 0 "[]"]
    by (cases "drain 5 (m_stringData sample_redis) sample_stuck 0 []") auto
  then show ?thesis
    unfolding onClientDataReceived_def Let_def c by simp
qed

section \<open>Theorems: malformed RESP lengths\<close>

text \<open>
  A count or a length without a digit makes \<^verbatim>\<open>std::stoll\<close> throw
  \<^verbatim>\<open>std::invalid_argument\<close>, one with too many digits \<^verbatim>\<open>std::out_of_range\<close>. Neither
  \<^verbatim>\<open>resp_decode\<close> nor \<^verbatim>\<open>onClientDataReceived\<close> catches it.
\<close>

lemma nondecimal_decode_throws: "resp_decode sample_nondecimal = Inl invalid_argument"
  by (simp add: sample_nondecimal_def resp_eval)

lemma nondecimal_count_uncaught:
  "onClientDataReceived sample_redis 5 sample_nondecimal = Some (Inl invalid_argument)"
proof -
  have c: "cleaned (m_clientBuffers sample_redis 5 @ sample_nondecimal) = sample_nondecimal"
    by (simp add: sample_nondecimal_def cleaned_def filterNullBytes_def HEARTBEAT_MAGIC_def
          crlf_def CR_def LF_def sample_redis_def)
  have "drain 5 (m_stringData sample_redis) sample_nondecimal 0 []
        = Some (Inl invalid_argument)"
    by (subst drain.simps) (simp add: nondecimal_decode_throws)
  then show ?thesis
    unfolding onClientDataReceived_def Let_def c by simp
qed

lemma nondecimal_length_throws:
  "resp_decode (''*1'' @ crlf @ ''$abc'' @ crlf) = Inl invalid_argument"
  by (simp add: resp_eval)

lemma huge_length_throws:
  "resp_decode (''*1'' @ crlf @ ''$99999999999999999999'' @ crlf) = Inl out_of_range"
  by (simp add: resp_eval)

text \<open>
  Claim C5 says that a buffer with a malformed count or length is never decoded, that the
  decoder fails with an error result and the connection is closed, with no uncaught
  exception and no command applied. The code does not do this on three requests. On
  \<open>*x\<close> the exception of \<^verbatim>\<open>std::stoll\<close> leaves \<^verbatim>\<open>resp_decode\<close> and
  \<^verbatim>\<open>onClientDataReceived\<close> uncaught. On the bulk length \<open>-1\<close> the decoder succeeds, the
  command is executed and its reply is sent. On the bulk length \<open>-12\<close> the decoder
  succeeds with nothing consumed and \<^verbatim>\<open>onClientDataReceived\<close> never returns.
\<close>

theorem malformed_lengths_mishandled:
  "resp_decode sample_nondecimal = Inl invalid_argument
   \<and> onClientDataReceived sample_redis 5 sample_nondecimal = Some (Inl invalid_argument)
   \<and> resp_decode sample_negative_length = Inr (True, [''X''], 10)
   \<and> onClientDataReceived sample_redis 5 sample_negative_length
     = Some (Inr (10, sample_redis,
                  [(5, ''-ERR unknown command '' @ [quote] @ ''X'' @ [quote] @ crlf)]))
   \<and> resp_decode sample_stuck = Inr (True, [''''], 0)
   \<and> onClientDataReceived sample_redis 5 sample_stuck = None"
  using nondecimal_decode_throws nondecimal_count_uncaught negative_length_decodes
    stuck_decodes stuck_request_never_answered
  by blast

section \<open>Theorems: send queue\<close>








end
